theory Spec2Isabelle
  imports Main "HOL-Library.Word" "HOL-Library.Multiset"
begin

section \<open>Strings of the Go standard library\<close>

text \<open>
  Go strings are byte sequences; they are modelled as \<open>string\<close> (a list of 8-bit
  characters). The functions of package \<open>strings\<close> that the notes package calls are
  written out on bytes. The white-space and letter-case functions are modelled on ASCII:
  git's revisions, refs and diagnostics are ASCII text.
\<close>

definition HasPrefix :: "string \<Rightarrow> string \<Rightarrow> bool" where
  "HasPrefix s p = (take (length p) s = p)"

definition TrimPrefix :: "string \<Rightarrow> string \<Rightarrow> string" where
  "TrimPrefix s p = (if HasPrefix s p then drop (length p) s else s)"

fun Contains :: "string \<Rightarrow> string \<Rightarrow> bool" where
  "Contains [] sub = (sub = [])"
| "Contains (c # cs) sub = (HasPrefix (c # cs) sub \<or> Contains cs sub)"

definition isSpace :: "char \<Rightarrow> bool" where
  "isSpace c = (c = CHR '' '' \<or> c = CHR 0x09 \<or> c = CHR 0x0A \<or> c = CHR 0x0B
                \<or> c = CHR 0x0C \<or> c = CHR 0x0D)"

definition TrimSpace :: "string \<Rightarrow> string" where
  "TrimSpace s = rev (dropWhile isSpace (rev (dropWhile isSpace s)))"

definition toLowerChar :: "char \<Rightarrow> char" where
  "toLowerChar c =
     (let n = (of_char c :: nat) in if 65 \<le> n \<and> n \<le> 90 then char_of (n + 32) else c)"

definition ToLower :: "string \<Rightarrow> string" where
  "ToLower s = map toLowerChar s"

text \<open>\<open>strings.Fields\<close>: the maximal runs of non-space bytes, in order.\<close>

fun fieldsFrom :: "string \<Rightarrow> string \<Rightarrow> string list" where
  "fieldsFrom cur [] = (if cur = [] then [] else [cur])"
| "fieldsFrom cur (c # cs) =
     (if isSpace c then (if cur = [] then fieldsFrom [] cs else cur # fieldsFrom [] cs)
      else fieldsFrom (cur @ [c]) cs)"

definition Fields :: "string \<Rightarrow> string list" where
  "Fields s = fieldsFrom [] s"

text \<open>The verb \<open>%d\<close> of \<open>fmt\<close>: decimal digits, with a minus sign below zero.\<close>

function utoa :: "nat \<Rightarrow> string" where
  "utoa n = (if n < 10 then [char_of (48 + n)] else utoa (n div 10) @ [char_of (48 + n mod 10)])"
  by pat_completeness auto
termination
  by (relation "measure id") auto

declare utoa.simps [simp del]

definition itoa :: "int \<Rightarrow> string" where
  "itoa i = (if i < 0 then CHR ''-'' # utoa (nat (- i)) else utoa (nat i))"

section \<open>Errors\<close>

text \<open>
  The typed errors of \<open>errors.go\<close>, and the two ways the package builds other errors:
  \<open>fmt.Errorf\<close> without \<open>%w\<close> (\<open>ErrorString\<close>, the message) and with \<open>%w\<close>
  (\<open>WrapError\<close>, the formatted message and the wrapped error). The first field of
  \<open>NoteNotFoundError\<close> is the one \<open>GetNoteWithContext\<close> fills with the namespace.
\<close>

datatype error =
    NoteNotFoundError string string
  | InvalidCommitShaError string
  | NoteSizeExceededError int int
  | ErrorString string
  | WrapError string error

fun Error :: "error \<Rightarrow> string" where
  "Error (NoteNotFoundError ref commitSha) =
     ''note not found for commit '' @ commitSha @ '' in ref '' @ ref"
| "Error (InvalidCommitShaError commitSha) =
     ''invalid or non-existent commit SHA: '' @ commitSha"
| "Error (NoteSizeExceededError sz maxSize) =
     ''note size '' @ itoa sz @ '' exceeds maximum allowed size '' @ itoa maxSize"
| "Error (ErrorString msg) = msg"
| "Error (WrapError msg e) = msg"

text \<open>\<open>errors.As\<close> walks the chain of wrapped errors.\<close>

fun IsNoteNotFound :: "error \<Rightarrow> bool" where
  "IsNoteNotFound (NoteNotFoundError ref commitSha) = True"
| "IsNoteNotFound (WrapError msg e) = IsNoteNotFound e"
| "IsNoteNotFound e = False"

fun IsInvalidCommitSha :: "error \<Rightarrow> bool" where
  "IsInvalidCommitSha (InvalidCommitShaError commitSha) = True"
| "IsInvalidCommitSha (WrapError msg e) = IsInvalidCommitSha e"
| "IsInvalidCommitSha e = False"

fun IsNoteSizeExceededError :: "error \<Rightarrow> bool" where
  "IsNoteSizeExceededError (NoteSizeExceededError sz maxSize) = True"
| "IsNoteSizeExceededError (WrapError msg e) = IsNoteSizeExceededError e"
| "IsNoteSizeExceededError e = False"

section \<open>The git backend\<close>

text \<open>
  Git runs as an external process. A backend is any function from its own state \<open>'w\<close>
  (the repository, the remotes, the clock) and the argument vector to what
  \<open>cmd.Run\<close> delivers: standard output, standard error, and the error of the run if it
  failed (\<open>ExitError code msg\<close> for an \<open>*exec.ExitError\<close> with that \<open>ExitCode()\<close> and
  \<open>Error()\<close> text, \<open>RunError msg\<close> for any other error). Every theorem below holds for
  every backend unless it names one.

  A state of the program is the backend's state together with the trace of what the
  program has done to the outside: the git commands it ran and the pauses it took.
\<close>

datatype run_error = ExitError int string | RunError string

type_synonym run_result = "string \<times> string \<times> run_error option"

type_synonym 'w git = "'w \<Rightarrow> string list \<Rightarrow> run_result \<times> 'w"

datatype event = Git "string list" | Sleep int

type_synonym 'w state = "'w \<times> event list"

text \<open>
  A process that exits with status \<open>n > 0\<close>: \<open>ExitCode()\<close> is \<open>n\<close> and the error
  prints as \<open>exit status n\<close>.
\<close>

definition exitStatus :: "nat \<Rightarrow> run_error" where
  "exitStatus n = ExitError (int n) (''exit status '' @ utoa n)"

text \<open>
  A scripted backend for concrete runs: its state is the list of outputs still to be
  delivered, one per command, whatever the command.
\<close>

definition scripted :: "(run_result list) git" where
  "scripted w args =
     (case w of [] \<Rightarrow> (([], [], Some (RunError ''no output scripted'')), [])
      | r # rs \<Rightarrow> (r, rs))"

text \<open>
  A context is asked for its error (\<open>ctx.Err()\<close>) in the state the backend has reached;
  \<open>context.Background()\<close> never has one.
\<close>

type_synonym 'w ctx = "'w \<Rightarrow> error option"

definition Background :: "'w ctx" where
  "Background w = None"

text \<open>
  \<open>executeGitCommand\<close> (the test hooks around the run are unset outside the tests and
  are part of the backend here). Every caller passes a literal first argument, which the
  error message names.
\<close>

definition gitError :: "string list \<Rightarrow> string \<Rightarrow> run_error \<Rightarrow> error" where
  "gitError args stderr e =
     (case e of
        ExitError code msg \<Rightarrow>
          WrapError (''git '' @ hd args @ '' failed with exit code '' @ itoa code @ '': '' @ msg
                     @ ''; stderr: '' @ stderr) (ErrorString msg)
      | RunError msg \<Rightarrow>
          WrapError (''git '' @ hd args @ '' failed: '' @ msg @ ''; stderr: '' @ stderr)
                    (ErrorString msg))"

definition executeGitCommand ::
  "'w git \<Rightarrow> string list \<Rightarrow> 'w state \<Rightarrow> (string \<times> string \<times> error option) \<times> 'w state" where
  "executeGitCommand git args st =
     (case git (fst st) args of
        ((stdout, stderr, r), w') \<Rightarrow>
          ((case r of
              None \<Rightarrow> (TrimSpace stdout, TrimSpace stderr, None)
            | Some e \<Rightarrow> (stdout, stderr, Some (gitError args stderr e))),
           (w', snd st @ [Git args])))"

definition executeGitCommandContext ::
  "'w ctx \<Rightarrow> 'w git \<Rightarrow> string list \<Rightarrow> 'w state
     \<Rightarrow> (string \<times> string \<times> error option) \<times> 'w state" where
  "executeGitCommandContext ctx git args st =
     (case git (fst st) args of
        ((stdout, stderr, r), w') \<Rightarrow>
          ((case r of
              None \<Rightarrow> (TrimSpace stdout, TrimSpace stderr, None)
            | Some e \<Rightarrow>
                (case ctx w' of
                   Some ce \<Rightarrow>
                     (stdout, stderr, Some (WrapError (''command cancelled: '' @ Error ce) ce))
                 | None \<Rightarrow> (stdout, stderr, Some (gitError args stderr e)))),
           (w', snd st @ [Git args])))"

section \<open>Namespaces and revisions\<close>

definition formatNamespaceRef :: "string \<Rightarrow> string" where
  "formatNamespaceRef namespace =
     (if namespace = [] then ''refs/notes/commits''
      else if HasPrefix namespace ''refs/notes/'' then namespace
      else ''refs/notes/'' @ namespace)"

definition isSafeRevisionSpec :: "string \<Rightarrow> bool" where
  "isSafeRevisionSpec sha =
     (if sha = [] then True
      else if HasPrefix sha ''-'' then False
      else CHR 0x00 \<notin> set sha)"

definition validateCommitSHA :: "'w git \<Rightarrow> string \<Rightarrow> 'w state \<Rightarrow> error option \<times> 'w state" where
  "validateCommitSHA git sha st =
     (if \<not> isSafeRevisionSpec sha then (Some (InvalidCommitShaError sha), st)
      else if sha = [] then (None, st)
      else (case executeGitCommand git [''rev-parse'', ''--verify'', sha] st of
              ((stdout, stderr, Some e), st') \<Rightarrow> (Some (InvalidCommitShaError sha), st')
            | ((stdout, stderr, None), st') \<Rightarrow> (None, st')))"

section \<open>The annotation store\<close>

definition MaxNoteSize :: int where
  "MaxNoteSize = 10 * 1024 * 1024"

definition MaxJSONObjects :: nat where
  "MaxJSONObjects = 1000"

definition DefaultRetryAttempts :: int where
  "DefaultRetryAttempts = 3"

text \<open>How \<open>GetNoteWithContext\<close> reads a failed \<open>git notes show\<close>.\<close>

definition getNoteError :: "string \<Rightarrow> string \<Rightarrow> string \<Rightarrow> string \<Rightarrow> error \<Rightarrow> error" where
  "getNoteError namespace ref commitSha stderr err =
     (let errStr = Error err; stderrLower = ToLower stderr in
      if Contains errStr ''exit code 1'' \<and>
         (Contains stderrLower ''no note found'' \<or> Contains stderrLower ''no notes found'')
      then NoteNotFoundError namespace commitSha
      else if Contains errStr ''no note found for object'' \<or> Contains errStr ''failed to get note''
      then NoteNotFoundError namespace commitSha
      else if Contains errStr ''fatal: failed to resolve'' \<or> Contains errStr ''exit code 128''
      then InvalidCommitShaError commitSha
      else WrapError (''failed to get note for '' @ commitSha @ '' in '' @ ref @ '': '' @ errStr) err)"

definition GetNoteWithContext ::
  "'w ctx \<Rightarrow> 'w git \<Rightarrow> string \<Rightarrow> string \<Rightarrow> 'w state \<Rightarrow> (error + string) \<times> 'w state" where
  "GetNoteWithContext ctx git namespace commitSha st =
     (case validateCommitSHA git commitSha st of
        (Some e, st1) \<Rightarrow> (Inl e, st1)
      | (None, st1) \<Rightarrow>
          (let ref = formatNamespaceRef namespace in
           case (if commitSha = []
                 then (case executeGitCommandContext ctx git [''rev-parse'', ''HEAD''] st1 of
                         ((head, u, Some e), st2) \<Rightarrow>
                           (Inl (WrapError (''failed to resolve HEAD: '' @ Error e) e), st2)
                       | ((head, u, None), st2) \<Rightarrow> (Inr head, st2))
                 else (Inr commitSha, st1)) of
             (Inl e, st2) \<Rightarrow> (Inl e, st2)
           | (Inr sha, st2) \<Rightarrow>
               (case executeGitCommandContext ctx git [''notes'', ''--ref'', ref, ''show'', sha] st2 of
                  ((stdout, stderr, None), st3) \<Rightarrow> (Inr stdout, st3)
                | ((stdout, stderr, Some err), st3) \<Rightarrow>
                    (case ctx (fst st3) of
                       Some ce \<Rightarrow> (Inl ce, st3)
                     | None \<Rightarrow> (Inl (getNoteError namespace ref sha stderr err), st3)))))"

definition GetNote :: "'w git \<Rightarrow> string \<Rightarrow> string \<Rightarrow> 'w state \<Rightarrow> (error + string) \<times> 'w state" where
  "GetNote git namespace commitSha st = GetNoteWithContext Background git namespace commitSha st"

definition SetNote ::
  "'w git \<Rightarrow> string \<Rightarrow> string \<Rightarrow> string \<Rightarrow> 'w state \<Rightarrow> error option \<times> 'w state" where
  "SetNote git namespace commitSha val st =
     (case validateCommitSHA git commitSha st of
        (Some e, st1) \<Rightarrow> (Some e, st1)
      | (None, st1) \<Rightarrow>
          if int (length val) > MaxNoteSize
          then (Some (NoteSizeExceededError (int (length val)) MaxNoteSize), st1)
          else
            (let ref = formatNamespaceRef namespace in
             case (if commitSha = []
                   then (case executeGitCommand git [''rev-parse'', ''HEAD''] st1 of
                           ((head, u, Some e), st2) \<Rightarrow>
                             (Inl (WrapError (''failed to resolve HEAD: '' @ Error e) e), st2)
                         | ((head, u, None), st2) \<Rightarrow> (Inr head, st2))
                   else (Inr commitSha, st1)) of
               (Inl e, st2) \<Rightarrow> (Some e, st2)
             | (Inr sha, st2) \<Rightarrow>
                 (case executeGitCommand git
                         [''notes'', ''--ref'', ref, ''add'', ''-f'', ''-m'', val, sha] st2 of
                    ((stdout, stderr, None), st3) \<Rightarrow> (None, st3)
                  | ((stdout, stderr, Some err), st3) \<Rightarrow>
                      (Some (WrapError (''failed to set note for '' @ sha @ '' in '' @ ref
                               @ '' (stdout: '' @ stdout @ '' | stderr: '' @ stderr @ ''): ''
                               @ Error err) err), st3))))"

definition DeleteNote :: "'w git \<Rightarrow> string \<Rightarrow> string \<Rightarrow> 'w state \<Rightarrow> error option \<times> 'w state" where
  "DeleteNote git namespace commitSha st =
     (if commitSha = [] then (Some (ErrorString ''commitSha cannot be empty''), st)
      else
        (case validateCommitSHA git commitSha st of
           (Some e, st1) \<Rightarrow> (Some e, st1)
         | (None, st1) \<Rightarrow>
             (let ref = formatNamespaceRef namespace in
              case executeGitCommand git [''notes'', ''--ref'', ref, ''remove'', commitSha] st1 of
                ((stdout, stderr, None), st2) \<Rightarrow> (None, st2)
              | ((stdout, stderr, Some err), st2) \<Rightarrow>
                  if Contains stderr ''object has no note'' \<or> Contains (Error err) ''exit code 1''
                  then (None, st2)
                  else (Some (WrapError (''failed to delete note for '' @ commitSha @ '' in '' @ ref
                                @ '' (stderr: '' @ stderr @ ''): '' @ Error err) err), st2))))"

section \<open>Bulk reads\<close>




section \<open>Listing the notes of a namespace\<close>

text \<open>
  \<open>bufio.Scanner\<close> with its default line splitter: the text is cut at every line feed, a
  carriage return at the end of a line is dropped, an empty rest after the last line feed
  is no line, and a line of 64 KiB or more stops the scan with an error.
\<close>

definition MaxScanTokenSize :: nat where
  "MaxScanTokenSize = 64 * 1024"

fun rawLines :: "string \<Rightarrow> string \<Rightarrow> string list" where
  "rawLines cur [] = (if cur = [] then [] else [cur])"
| "rawLines cur (c # cs) =
     (if c = CHR 0x0A then cur # rawLines [] cs else rawLines (cur @ [c]) cs)"

definition dropCR :: "string \<Rightarrow> string" where
  "dropCR l = (if l \<noteq> [] \<and> last l = CHR 0x0D then butlast l else l)"

fun scanLines :: "string list \<Rightarrow> string list \<times> bool" where
  "scanLines [] = ([], False)"
| "scanLines (l # ls) =
     (if MaxScanTokenSize \<le> length l then ([], True)
      else (case scanLines ls of (r, e) \<Rightarrow> (dropCR l # r, e)))"

definition Scan :: "string \<Rightarrow> string list \<times> bool" where
  "Scan s = scanLines (rawLines [] s)"











section \<open>Synchronisation with a remote\<close>

text \<open>The format \<open>'%s'\<close>: the text between single quotes.\<close>

definition quoted :: "string \<Rightarrow> string" where
  "quoted s = [CHR 0x27] @ s @ [CHR 0x27]"

text \<open>
  How \<open>FetchNotes\<close> and \<open>pushNotesAttempt\<close> read a failed fetch as "the remote has no
  such ref".
\<close>

definition fetchRefMissing :: "string \<Rightarrow> error \<Rightarrow> bool" where
  "fetchRefMissing stderrOutput err =
     (let stderrLower = ToLower stderrOutput in
      Contains stderrLower ''couldn't find remote ref'' \<or>
      Contains stderrLower ''no such ref'' \<or>
      Contains stderrLower ''fetch-pack: invalid refspec'' \<or>
      Contains (Error err) ''exit status 1'' \<or>
      Contains (Error err) ''exit status 128'')"

definition pushFetchRefMissing :: "string \<Rightarrow> error \<Rightarrow> bool" where
  "pushFetchRefMissing fetchStderr fetchErr =
     (let stderrLower = ToLower fetchStderr in
      Contains stderrLower ''couldn't find remote ref'' \<or>
      Contains stderrLower ''no such ref'' \<or>
      Contains stderrLower ''fetch-pack: invalid refspec'' \<or>
      (Contains (Error fetchErr) ''exit status 1'' \<and> fetchStderr = []) \<or>
      Contains (Error fetchErr) ''exit status 128'')"

text \<open>
  The commits named by the lines of \<open>git notes list\<close>. \<open>FetchNotes\<close> collects them as
  the keys of a map and reads them back in the map's order, which Go leaves open; the
  model takes each once, in the order of the lines that name it last.
\<close>

fun shasToFetch :: "string list \<Rightarrow> string list" where
  "shasToFetch [] = []"
| "shasToFetch (line # rest) =
     (let parts = Fields line in
      if length parts \<ge> 2 then (parts ! 1) # shasToFetch rest else shasToFetch rest)"

definition FetchNotes :: "'w git \<Rightarrow> string \<Rightarrow> string \<Rightarrow> 'w state \<Rightarrow> error option \<times> 'w state" where
  "FetchNotes git namespace remoteName st =
     (if remoteName = [] then (Some (ErrorString ''remoteName cannot be empty''), st)
      else
        (let localRef = formatNamespaceRef namespace;
             fullRefSpec = localRef @ '':'' @ localRef in
         case executeGitCommand git [''fetch'', ''--force'', remoteName, fullRefSpec] st of
           ((u, stderrOutput, Some err), st1) \<Rightarrow>
             if fetchRefMissing stderrOutput err then (None, st1)
             else (Some (WrapError (''failed to fetch notes for namespace '' @ namespace
                           @ '' (refspec '' @ fullRefSpec @ '') from '' @ remoteName
                           @ '' (stderr: '' @ stderrOutput @ ''): '' @ Error err) err), st1)
         | ((u, stderrOutput, None), st1) \<Rightarrow>
             (case executeGitCommand git [''notes'', ''--ref'', localRef, ''list''] st1 of
                ((listOutput, u', listErr), st2) \<Rightarrow>
                  if listErr = None \<and> listOutput \<noteq> [] then
                    (let shas = remdups (shasToFetch (fst (Scan listOutput))) in
                     if length shas > 0
                     then (None, snd (executeGitCommand git ([''fetch'', remoteName] @ shas) st2))
                     else (None, st2))
                  else (None, st2))))"

text \<open>A failed merge that reports "already up to date" or "nothing to merge".\<close>

definition mergeUpToDate :: "string \<Rightarrow> bool" where
  "mergeUpToDate mergeStderr =
     (let mergeStderrLower = ToLower mergeStderr in
      Contains mergeStderrLower ''already up to date'' \<or>
      Contains mergeStderrLower ''nothing to merge'')"

definition mergeError :: "string \<Rightarrow> string \<Rightarrow> string \<Rightarrow> error \<Rightarrow> error" where
  "mergeError remoteTrackingRef localRef mergeStderr mergeErr =
     (if Contains (ToLower mergeStderr) ''conflict''
      then WrapError (''failed to automatically merge notes from '' @ quoted remoteTrackingRef
             @ '' into '' @ quoted localRef @ '' using 'cat_sort_uniq', conflict: ''
             @ Error mergeErr @ ''; stderr: '' @ mergeStderr) mergeErr
      else WrapError (''failed to merge notes from '' @ quoted remoteTrackingRef @ '' into ''
             @ quoted localRef @ '': '' @ Error mergeErr @ ''; stderr: '' @ mergeStderr) mergeErr)"

text \<open>
  The merge step of \<open>pushNotesAttempt\<close>, from the snapshot of the local ref to the end of
  the block that runs when the remote has notes; an error ends the attempt.
\<close>

definition mergeRemoteNotes ::
  "'w git \<Rightarrow> string \<Rightarrow> string \<Rightarrow> 'w state \<Rightarrow> error option \<times> 'w state" where
  "mergeRemoteNotes git localRef remoteTrackingRef st =
     (case executeGitCommand git [''rev-parse'', localRef] st of
        ((sha, u, err), st1) \<Rightarrow>
          (let localRefSHA = (if err \<noteq> None then [] else sha) in
           case executeGitCommand git [''rev-parse'', ''--verify'', remoteTrackingRef] st1 of
             ((u1, u2, Some errVerifyRemoteRef), st2) \<Rightarrow> (None, st2)
           | ((u1, u2, None), st2) \<Rightarrow>
               (case executeGitCommand git
                       [''notes'', ''--ref'', localRef, ''merge'', ''-s'', ''cat_sort_uniq'',
                        remoteTrackingRef] st2 of
                  ((u3, mergeStderr, None), st3) \<Rightarrow> (None, st3)
                | ((u3, mergeStderr, Some mergeErr), st3) \<Rightarrow>
                    if mergeUpToDate mergeStderr then (None, st3)
                    else
                      (let st4 = snd (executeGitCommand git
                                        [''notes'', ''--ref'', localRef, ''merge'', ''--abort''] st3);
                           st5 = (if localRefSHA \<noteq> []
                                  then snd (executeGitCommand git
                                              [''update-ref'', localRef, TrimSpace localRefSHA] st4)
                                  else st4) in
                       (Some (mergeError remoteTrackingRef localRef mergeStderr mergeErr), st5)))))"

definition pushNotesAttempt ::
  "'w git \<Rightarrow> string \<Rightarrow> string \<Rightarrow> 'w state \<Rightarrow> error option \<times> 'w state" where
  "pushNotesAttempt git namespace remoteName st =
     (let localRef = formatNamespaceRef namespace;
          st1 = snd (executeGitCommand git [''notes'', ''--ref'', localRef, ''merge'', ''--abort''] st)
      in
      case executeGitCommand git [''fetch'', remoteName, localRef] st1 of
        ((u, fetchStderr, fetchErr), st2) \<Rightarrow>
          (case (case fetchErr of
                   None \<Rightarrow> Inr True
                 | Some e \<Rightarrow>
                     if pushFetchRefMissing fetchStderr e then Inr False
                     else Inl (WrapError (''failed to fetch notes from remote '' @ quoted remoteName
                                 @ '' for ref '' @ quoted localRef @ '' before merge: '' @ Error e
                                 @ ''; stderr: '' @ fetchStderr) e)) of
             Inl e \<Rightarrow> (Some e, st2)
           | Inr remoteNotesExist \<Rightarrow>
               (case (if remoteNotesExist then
                        (if HasPrefix localRef ''refs/notes/''
                         then mergeRemoteNotes git localRef
                                (''refs/remotes/'' @ remoteName @ ''/'' @ TrimPrefix localRef ''refs/'')
                                st2
                         else (Some (ErrorString (''internal error: localRef '' @ quoted localRef
                                 @ '' is not in the expected 'refs/notes/...' format'')), st2))
                      else (None, st2)) of
                  (Some e, st3) \<Rightarrow> (Some e, st3)
                | (None, st3) \<Rightarrow>
                    (case executeGitCommand git [''push'', remoteName, localRef] st3 of
                       ((u', pushStderr, None), st4) \<Rightarrow> (None, st4)
                     | ((u', pushStderr, Some pushErr), st4) \<Rightarrow>
                         (Some (WrapError (''failed to push merged notes ref '' @ quoted localRef
                                  @ '' to remote '' @ quoted remoteName @ '': '' @ Error pushErr
                                  @ ''; stderr: '' @ pushStderr) pushErr), st4)))))"

text \<open>
  The pause before the next attempt: \<open>time.Duration(attempt*attempt) * 100 *
  time.Millisecond\<close>, in nanoseconds, computed in 64-bit signed integers.
\<close>

definition backoff :: "int \<Rightarrow> int" where
  "backoff attempt = sint ((word_of_int (attempt * attempt) :: 64 word) * 100 * 1000000)"

definition pushRetryable :: "error \<Rightarrow> bool" where
  "pushRetryable err =
     (Contains (Error err) ''non-fast-forward'' \<or>
      Contains (Error err) ''fetch first'' \<or>
      Contains (Error err) ''rejected'')"

text \<open>The loop of \<open>PushNotesWithRetry\<close>, from the attempt it is about to make.\<close>

function pushAttempts ::
  "'w git \<Rightarrow> string \<Rightarrow> string \<Rightarrow> int \<Rightarrow> int \<Rightarrow> 'w state \<Rightarrow> error option \<times> 'w state" where
  "pushAttempts git namespace remoteName maxRetries attempt st =
     (if attempt < maxRetries then
        (case pushNotesAttempt git namespace remoteName st of
           (None, st') \<Rightarrow> (None, st')
         | (Some err, st') \<Rightarrow>
             if pushRetryable err \<and> attempt < maxRetries - 1
             then pushAttempts git namespace remoteName maxRetries (attempt + 1)
                    (fst st', snd st' @ [Sleep (backoff attempt)])
             else (Some err, st'))
      else (Some (ErrorString (''push failed after '' @ itoa maxRetries @ '' attempts'')), st))"
  by pat_completeness auto
termination
  by (relation "measure (\<lambda>(git, namespace, remoteName, maxRetries, attempt, st).
        nat (maxRetries - attempt))") auto

declare pushAttempts.simps [simp del]

definition PushNotesWithRetry ::
  "'w git \<Rightarrow> string \<Rightarrow> string \<Rightarrow> int \<Rightarrow> 'w state \<Rightarrow> error option \<times> 'w state" where
  "PushNotesWithRetry git namespace remoteName maxRetries st =
     (if remoteName = [] then (Some (ErrorString ''remoteName cannot be empty''), st)
      else pushAttempts git namespace remoteName maxRetries 0 st)"

definition PushNotes :: "'w git \<Rightarrow> string \<Rightarrow> string \<Rightarrow> 'w state \<Rightarrow> error option \<times> 'w state" where
  "PushNotes git namespace remoteName st =
     PushNotesWithRetry git namespace remoteName DefaultRetryAttempts st"

section \<open>Notes as streams of JSON documents\<close>

text \<open>
  \<open>encoding/json\<close> is a parameter. A codec for the element type \<open>'a\<close> gives
  \<^item> \<open>Marshal\<close>: the JSON text of a value, or the error of \<open>json.Marshal\<close>;
  \<^item> \<open>More\<close>: \<open>decoder.More()\<close> for a decoder on the given content that has read up to
    the given offset;
  \<^item> \<open>Decode\<close>: \<open>decoder.Decode\<close> at that offset: the value and the offset after it, or
    the error and what \<open>decoder.InputOffset()\<close> then reports;
  \<^item> \<open>TypeName\<close>: what the verb \<open>%T\<close> prints for the element type.
\<close>

record 'a codec =
  Marshal :: "'a \<Rightarrow> error + string"
  More :: "string \<Rightarrow> nat \<Rightarrow> bool"
  Decode :: "string \<Rightarrow> nat \<Rightarrow> (error \<times> nat) + ('a \<times> nat)"
  TypeName :: string

definition SetNoteJSON ::
  "'a codec \<Rightarrow> 'w git \<Rightarrow> string \<Rightarrow> string \<Rightarrow> 'a \<Rightarrow> 'w state \<Rightarrow> error option \<times> 'w state" where
  "SetNoteJSON c git namespace commitSha v st =
     (if commitSha = [] then (Some (ErrorString ''commitSha cannot be empty for SetNoteJSON''), st)
      else
        (case Marshal c v of
           Inl err \<Rightarrow>
             (Some (WrapError (''failed to marshal value of type '' @ TypeName c
                      @ '' to JSON for commit '' @ commitSha @ '': '' @ Error err) err), st)
         | Inr jsonData \<Rightarrow> SetNote git namespace commitSha jsonData st))"

text \<open>The context the decode error quotes: up to 20 bytes on each side of the offset.\<close>

definition contextSnippet :: "string \<Rightarrow> nat \<Rightarrow> string" where
  "contextSnippet noteContent offset =
     (let snippetStart = (if int offset - 20 < 0 then 0 else int offset - 20);
          snippetEnd = (if int offset + 20 > int (length noteContent)
                        then int (length noteContent) else int offset + 20) in
      if snippetStart < snippetEnd \<and> snippetStart < int (length noteContent)
         \<and> snippetEnd \<le> int (length noteContent)
      then take (nat (snippetEnd - snippetStart)) (drop (nat snippetStart) noteContent)
      else if snippetStart < int (length noteContent)
      then drop (nat snippetStart) noteContent
      else ''(context unavailable)'')"

definition decodeError :: "'a codec \<Rightarrow> string \<Rightarrow> string \<Rightarrow> nat \<Rightarrow> nat \<Rightarrow> error \<Rightarrow> error" where
  "decodeError c commitSha noteContent processed offset errDecode =
     (let errMsgPrefix = ''failed to decode JSON object into '' @ TypeName c
            @ '' in stream for commit '' @ commitSha
            @ '' (processed '' @ itoa (int processed) @ '' objects)'';
          fullErrMsg = errMsgPrefix @ ''. Context around error (offset approx ''
            @ itoa (int offset) @ ''): '' @ [CHR 0x22] @ ''...''
            @ contextSnippet noteContent offset @ ''...'' @ [CHR 0x22] in
      WrapError (fullErrMsg @ '': '' @ Error errDecode) errDecode)"

definition limitError :: error where
  "limitError =
     ErrorString (''exceeded maximum number of JSON objects ('' @ itoa (int MaxJSONObjects)
       @ '') in note'')"

text \<open>The decoding loop of \<open>GetNoteJSON\<close>, from the offset the decoder has reached.\<close>

function decodeObjects ::
  "'a codec \<Rightarrow> string \<Rightarrow> string \<Rightarrow> nat \<Rightarrow> 'a list \<Rightarrow> nat \<Rightarrow> 'a list \<times> error option" where
  "decodeObjects c commitSha noteContent pos results objectCount =
     (if More c noteContent pos then
        (if objectCount \<ge> MaxJSONObjects then (results, Some limitError)
         else
           (case Decode c noteContent pos of
              Inl (errDecode, offset) \<Rightarrow>
                (results,
                 Some (decodeError c commitSha noteContent (length results) offset errDecode))
            | Inr (currentElem, pos') \<Rightarrow>
                decodeObjects c commitSha noteContent pos' (results @ [currentElem])
                  (objectCount + 1)))
      else (results, None))"
  by pat_completeness auto
termination
  by (relation "measure (\<lambda>(c, commitSha, noteContent, pos, results, objectCount).
        MaxJSONObjects - objectCount)") auto

declare decodeObjects.simps [simp del]

text \<open>\<open>GetNoteJSON\<close> returns a slice and an error; the nil slice is the empty list.\<close>

definition GetNoteJSON ::
  "'a codec \<Rightarrow> 'w git \<Rightarrow> string \<Rightarrow> string \<Rightarrow> 'w state \<Rightarrow> ('a list \<times> error option) \<times> 'w state" where
  "GetNoteJSON c git namespace commitSha st =
     (if commitSha = [] then (([], Some (ErrorString ''commitSha cannot be empty for GetNoteJSON'')), st)
      else
        (case GetNote git namespace commitSha st of
           (Inl err, st1) \<Rightarrow>
             if IsNoteNotFound err then (([], None), st1)
             else (([], Some (WrapError (''failed to get underlying note for commit '' @ commitSha
                      @ '': '' @ Error err) err)), st1)
         | (Inr noteContent, st1) \<Rightarrow>
             if TrimSpace noteContent = [] then (([], None), st1)
             else (decodeObjects c commitSha noteContent 0 [] 0, st1)))"

text \<open>
  What a codec makes of a content: from offset \<open>pos\<close> the decoder reads the documents
  \<open>vs\<close>, one after the other, and has then reached offset \<open>pos'\<close>.
\<close>

fun decodesFrom :: "'a codec \<Rightarrow> string \<Rightarrow> nat \<Rightarrow> 'a list \<Rightarrow> nat \<Rightarrow> bool" where
  "decodesFrom c noteContent pos [] pos' = (pos' = pos)"
| "decodesFrom c noteContent pos (v # vs) pos' =
     (More c noteContent pos \<and>
      (case Decode c noteContent pos of
         Inl failure \<Rightarrow> False
       | Inr (v', pos1) \<Rightarrow> v' = v \<and> decodesFrom c noteContent pos1 vs pos'))"

section \<open>Concrete inputs\<close>

text \<open>A note one byte over the maximum size.\<close>

definition oversized :: string where
  "oversized = replicate 10485761 (CHR ''a'')"

text \<open>
  What a trace says about the retries: the pauses, in order, and the number of push
  attempts (each attempt fetches the namespace ref from the remote exactly once).
\<close>

fun sleepsOf :: "event list \<Rightarrow> int list" where
  "sleepsOf [] = []"
| "sleepsOf (Git args # tr) = sleepsOf tr"
| "sleepsOf (Sleep d # tr) = d # sleepsOf tr"

definition attemptsOf :: "string \<Rightarrow> string \<Rightarrow> event list \<Rightarrow> nat" where
  "attemptsOf namespace remoteName tr =
     count_list tr (Git [''fetch'', remoteName, formatNamespaceRef namespace])"

text \<open>
  A remote that another writer keeps ahead: every push is rejected, every other command
  succeeds.
\<close>

definition rejected :: string where
  "rejected = '' ! [rejected] refs/notes/dd_notes -> refs/notes/dd_notes (fetch first)''"

definition contended :: "unit git" where
  "contended w args =
     (if hd args = ''push'' then (([], rejected, Some (exitStatus 1)), w)
      else ((''4b825dc'', [], None), w))"

definition rejectedPush :: error where
  "rejectedPush =
     WrapError (''failed to push merged notes ref '' @ quoted ''refs/notes/dd_notes''
       @ '' to remote '' @ quoted ''origin'' @ '': ''
       @ Error (gitError [''push'', ''origin'', ''refs/notes/dd_notes''] rejected (exitStatus 1))
       @ ''; stderr: '' @ rejected)
       (gitError [''push'', ''origin'', ''refs/notes/dd_notes''] rejected (exitStatus 1))"

text \<open>
  Two scripted push attempts whose merge fails: one with a local ref to go back to, one
  whose local ref does not resolve.
\<close>

definition conflictRun :: "run_result list" where
  "conflictRun =
     [([], ''error: no merge in progress'', Some (exitStatus 1)),
      ([], [], None),
      (''1f3a9c0'', [], None),
      (''77be1d2'', [], None),
      ([], ''CONFLICT (content): Merge conflict in notes'', Some (exitStatus 1)),
      ([], [], None),
      ([], [], None)]"

definition absentRun :: "run_result list" where
  "absentRun =
     [([], ''error: no merge in progress'', Some (exitStatus 1)),
      ([], [], None),
      ([], ''fatal: ambiguous argument 'refs/notes/dd_notes': unknown revision'',
       Some (exitStatus 128)),
      (''77be1d2'', [], None),
      ([], ''error: failed to merge'', Some (exitStatus 1)),
      ([], [], None)]"




text \<open>
  A codec for the concrete runs: texts without quotes, backslashes or control bytes, whose
  JSON document is the text between double quotes. Its decoder skips white space, reads
  a document up to the closing quote, and fails at any other byte the way
  \<open>encoding/json\<close> does, at the offset of that byte.
\<close>

definition textCodec :: "string codec" where
  "textCodec =
     \<lparr>Marshal = (\<lambda>v. Inr ([CHR 0x22] @ v @ [CHR 0x22])),
      More = (\<lambda>noteContent pos.
        case dropWhile isSpace (drop pos noteContent) of
          [] \<Rightarrow> False
        | ch # rest \<Rightarrow> ch \<noteq> CHR '']'' \<and> ch \<noteq> CHR ''}''),
      Decode = (\<lambda>noteContent pos.
        let rest = dropWhile isSpace (drop pos noteContent);
            start = length noteContent - length rest in
        case rest of
          [] \<Rightarrow> Inl (ErrorString ''EOF'', start)
        | ch # body \<Rightarrow>
            if ch = CHR 0x22 \<and> CHR 0x22 \<in> set body
            then Inr (takeWhile (\<lambda>x. x \<noteq> CHR 0x22) body,
                      start + length (takeWhile (\<lambda>x. x \<noteq> CHR 0x22) body) + 2)
            else if ch = CHR 0x22 then Inl (ErrorString ''unexpected EOF'', start)
            else Inl (ErrorString (''invalid character '' @ quoted [ch]
                        @ '' looking for beginning of value''), start)),
      TypeName = ''string''\<rparr>"

definition doc :: string where
  "doc = [CHR 0x22, CHR ''a'', CHR 0x22]"

definition thousandAndOne :: string where
  "thousandAndOne = concat (replicate 1000 doc) @ doc"



text \<open>One value, its JSON text, and a backend that stores and returns it.\<close>

definition helloJSON :: string where
  "helloJSON = [CHR 0x22] @ ''hello'' @ [CHR 0x22]"

definition roundTripRun :: "run_result list" where
  "roundTripRun =
     [(''4b825dc'', [], None), ([], [], None), (''4b825dc'', [], None), (helloJSON, [], None)]"




section \<open>Facts about the backend layer\<close>

lemma executeGitCommand_state:
  "snd (executeGitCommand git args st) = (snd (git (fst st) args), snd st @ [Git args])"
  by (simp add: executeGitCommand_def split: prod.splits)

lemma validateCommitSHA_empty: "validateCommitSHA git [] st = (None, st)"
  by (simp add: validateCommitSHA_def isSafeRevisionSpec_def)

lemma validateCommitSHA_trace:
  "snd (snd (validateCommitSHA git sha st)) =
     snd st @ (if sha \<noteq> [] \<and> isSafeRevisionSpec sha
               then [Git [''rev-parse'', ''--verify'', sha]] else [])"
  by (auto simp add: validateCommitSHA_def executeGitCommand_def split: prod.splits option.splits)

lemma validateCommitSHA_error:
  "fst (validateCommitSHA git sha st) = Some e \<Longrightarrow> e = InvalidCommitShaError sha"
  by (auto simp add: validateCommitSHA_def executeGitCommand_def
      split: prod.splits option.splits if_splits)

lemma length_oversized: "int (length oversized) = 10485761"
  by (simp add: oversized_def)

lemma TrimSpace_head: "TrimSpace ''4b825dc'' = ''4b825dc''"
  by (simp add: TrimSpace_def isSpace_def)

lemma ref_dd_notes: "formatNamespaceRef ''dd_notes'' = ''refs/notes/dd_notes''"
  by (simp add: formatNamespaceRef_def HasPrefix_def)

text \<open>Substrings.\<close>

lemma HasPrefix_iff: "HasPrefix s p \<longleftrightarrow> (\<exists>b. s = p @ b)"
  unfolding HasPrefix_def
proof
  assume "take (length p) s = p"
  then have "s = p @ drop (length p) s" by (metis append_take_drop_id)
  then show "\<exists>b. s = p @ b" ..
next
  assume "\<exists>b. s = p @ b"
  then show "take (length p) s = p" by auto
qed

lemma Contains_iff: "Contains s sub \<longleftrightarrow> (\<exists>a b. s = a @ sub @ b)"
proof (induction s)
  case Nil
  show ?case by auto
next
  case (Cons c cs)
  show ?case
  proof
    assume "Contains (c # cs) sub"
    then consider "HasPrefix (c # cs) sub" | "Contains cs sub" by auto
    then show "\<exists>a b. c # cs = a @ sub @ b"
    proof cases
      case 1
      then obtain b where "c # cs = sub @ b" by (auto simp: HasPrefix_iff)
      then have "c # cs = [] @ sub @ b" by simp
      then show ?thesis by blast
    next
      case 2
      with Cons.IH obtain a b where "cs = a @ sub @ b" by blast
      then have "c # cs = (c # a) @ sub @ b" by simp
      then show ?thesis by blast
    qed
  next
    assume "\<exists>a b. c # cs = a @ sub @ b"
    then obtain a b where ab: "c # cs = a @ sub @ b" by blast
    show "Contains (c # cs) sub"
    proof (cases a)
      case Nil
      with ab have "HasPrefix (c # cs) sub" by (auto simp: HasPrefix_iff)
      then show ?thesis by simp
    next
      case (Cons x a')
      with ab have "cs = a' @ sub @ b" by simp
      with Cons.IH have "Contains cs sub" by blast
      then show ?thesis by simp
    qed
  qed
qed

lemma Contains_mid: "Contains (a @ sub @ b) sub"
  by (auto simp: Contains_iff)

lemma Contains_trans: "Contains s t \<Longrightarrow> Contains t u \<Longrightarrow> Contains s u"
proof -
  assume "Contains s t" "Contains t u"
  then obtain a b c d where "s = a @ t @ b" "t = c @ u @ d" by (auto simp: Contains_iff)
  then have "s = (a @ c) @ u @ (d @ b)" by simp
  then show ?thesis unfolding Contains_iff by blast
qed

lemma utoa_1: "utoa 1 = ''1''" by code_simp
lemma utoa_128: "utoa 128 = ''128''" by code_simp

lemma exitStatus_1: "exitStatus 1 = ExitError 1 ''exit status 1''"
  unfolding exitStatus_def utoa_1 by simp

lemma exitStatus_128: "exitStatus 128 = ExitError 128 ''exit status 128''"
  unfolding exitStatus_def utoa_128 by simp

lemma exitStatus_Suc_0: "exitStatus (Suc 0) = ExitError 1 ''exit status 1''"
  using exitStatus_1 by simp

lemma exit_1_text: "Contains (Error (gitError args stderr (exitStatus 1))) ''exit status 1''"
proof -
  have "Error (gitError args stderr (exitStatus 1)) =
     (''git '' @ hd args @ '' failed with exit code '' @ itoa 1 @ '': '') @
     ''exit status 1'' @ (''; stderr: '' @ stderr)"
    unfolding exitStatus_1 by (simp add: gitError_def)
  then show ?thesis by (simp only: Contains_mid)
qed

lemma exit_128_text: "Contains (Error (gitError args stderr (exitStatus 128))) ''exit status 128''"
proof -
  have "Error (gitError args stderr (exitStatus 128)) =
     (''git '' @ hd args @ '' failed with exit code '' @ itoa 128 @ '': '') @
     ''exit status 128'' @ (''; stderr: '' @ stderr)"
    unfolding exitStatus_128 by (simp add: gitError_def)
  then show ?thesis by (simp only: Contains_mid)
qed

lemma exit_128_text_1: "Contains (Error (gitError args stderr (exitStatus 128))) ''exit status 1''"
proof -
  have "Contains ''exit status 128'' ''exit status 1''"
    by (simp add: HasPrefix_def)
  with exit_128_text show ?thesis by (rule Contains_trans)
qed

lemma scripted_step:
  "executeGitCommand scripted args ((out, err, res) # rs, tr) =
     ((case res of
         None \<Rightarrow> (TrimSpace out, TrimSpace err, None)
       | Some e \<Rightarrow> (out, err, Some (gitError args err e))),
      (rs, tr @ [Git args]))"
  by (simp add: executeGitCommand_def scripted_def)

lemma TrimPrefix_dd_notes: "TrimPrefix ''refs/notes/dd_notes'' ''refs/'' = ''notes/dd_notes''"
  by (simp add: TrimPrefix_def HasPrefix_def)

lemma TrimSpace_Nil: "TrimSpace [] = []"
  by (simp add: TrimSpace_def)

lemma TrimSpace_1f3a: "TrimSpace ''1f3a9c0'' = ''1f3a9c0''"
  by (simp add: TrimSpace_def isSpace_def)

lemma TrimSpace_77be: "TrimSpace ''77be1d2'' = ''77be1d2''"
  by (simp add: TrimSpace_def isSpace_def)

lemma conflict_not_upToDate:
  "\<not> mergeUpToDate ''CONFLICT (content): Merge conflict in notes''"
  by code_simp

lemma failed_not_upToDate: "\<not> mergeUpToDate ''error: failed to merge''"
  by code_simp

lemma tracking_dd_notes:
  "''refs/remotes/'' @ ''origin'' @ ''/'' @ TrimPrefix ''refs/notes/dd_notes'' ''refs/''
     = ''refs/remotes/origin/notes/dd_notes''"
  by (simp add: TrimPrefix_def HasPrefix_def)

section \<open>The empty commit reference\<close>

text \<open>
  Claim C1, as the code has it. The empty commit reference passes validation without
  any backend command. \<open>GetNote\<close> and \<open>SetNote\<close> then resolve \<open>HEAD\<close>; when that
  succeeds they run their one notes command on the resolved commit, and the outcome of
  that command is theirs. \<open>DeleteNote\<close> does not: it rejects the empty reference with
  the error "commitSha cannot be empty" before any backend command.
\<close>

theorem empty_commit_ref:
  assumes head: "git w [''rev-parse'', ''HEAD''] = ((out, err, None), w1)"
    and sh: "git w1 [''notes'', ''--ref'', formatNamespaceRef namespace, ''show'', TrimSpace out]
               = ((nt, e, r), w2)"
    and ad: "git w1 [''notes'', ''--ref'', formatNamespaceRef namespace, ''add'', ''-f'', ''-m'', val,
                     TrimSpace out] = ((out', e', r'), w3)"
    and sz: "int (length val) \<le> MaxNoteSize"
  shows "validateCommitSHA git [] (w, tr) = (None, (w, tr))
    \<and> snd (GetNote git namespace [] (w, tr)) =
        (w2, tr @ [Git [''rev-parse'', ''HEAD''],
                   Git [''notes'', ''--ref'', formatNamespaceRef namespace, ''show'', TrimSpace out]])
    \<and> (r = None \<longrightarrow> fst (GetNote git namespace [] (w, tr)) = Inr (TrimSpace nt))
    \<and> snd (SetNote git namespace [] val (w, tr)) =
        (w3, tr @ [Git [''rev-parse'', ''HEAD''],
                   Git [''notes'', ''--ref'', formatNamespaceRef namespace, ''add'', ''-f'', ''-m'', val,
                        TrimSpace out]])
    \<and> (r' = None \<longrightarrow> fst (SetNote git namespace [] val (w, tr)) = None)
    \<and> DeleteNote git namespace [] (w, tr) = (Some (ErrorString ''commitSha cannot be empty''), (w, tr))"
proof -
  have g: "snd (GetNote git namespace [] (w, tr)) =
        (w2, tr @ [Git [''rev-parse'', ''HEAD''],
                   Git [''notes'', ''--ref'', formatNamespaceRef namespace, ''show'', TrimSpace out]])"
    using head sh
    by (cases r) (simp_all add: GetNote_def GetNoteWithContext_def validateCommitSHA_empty
        executeGitCommandContext_def Background_def Let_def)
  have g2: "r = None \<longrightarrow> fst (GetNote git namespace [] (w, tr)) = Inr (TrimSpace nt)"
    using head sh
    by (simp add: GetNote_def GetNoteWithContext_def validateCommitSHA_empty
        executeGitCommandContext_def Background_def Let_def)
  have s: "snd (SetNote git namespace [] val (w, tr)) =
        (w3, tr @ [Git [''rev-parse'', ''HEAD''],
                   Git [''notes'', ''--ref'', formatNamespaceRef namespace, ''add'', ''-f'', ''-m'', val,
                        TrimSpace out]])"
    using head ad sz
    by (cases r') (simp_all add: SetNote_def validateCommitSHA_empty executeGitCommand_def Let_def)
  have s2: "r' = None \<longrightarrow> fst (SetNote git namespace [] val (w, tr)) = None"
    using head ad sz
    by (simp add: SetNote_def validateCommitSHA_empty executeGitCommand_def Let_def)
  have d: "DeleteNote git namespace [] (w, tr) =
             (Some (ErrorString ''commitSha cannot be empty''), (w, tr))"
    by (simp add: DeleteNote_def)
  have v: "validateCommitSHA git [] (w, tr) = (None, (w, tr))"
    by (rule validateCommitSHA_empty)
  from v g g2 s s2 d show ?thesis by blast
qed

text \<open>
  A run: \<open>HEAD\<close> resolves to \<open>4b825dc\<close>, and the note is read from, and written to,
  that commit.
\<close>

theorem empty_commit_ref_witness:
  "GetNote scripted ''dd_notes'' [] ([(''4b825dc'', [], None), (''a note'', [], None)], []) =
     (Inr ''a note'',
      ([], [Git [''rev-parse'', ''HEAD''],
            Git [''notes'', ''--ref'', ''refs/notes/dd_notes'', ''show'', ''4b825dc'']]))
   \<and> SetNote scripted ''dd_notes'' [] ''a note''
       ([(''4b825dc'', [], None), (''a note'', [], None)], []) =
     (None,
      ([], [Git [''rev-parse'', ''HEAD''],
            Git [''notes'', ''--ref'', ''refs/notes/dd_notes'', ''add'', ''-f'', ''-m'', ''a note'',
                 ''4b825dc'']]))"
proof -
  have h: "scripted [(''4b825dc'', [], None), (''a note'', [], None)] [''rev-parse'', ''HEAD'']
     = ((''4b825dc'', [], None), [(''a note'', [], None)])"
    by (simp add: scripted_def)
  have n: "scripted [(''a note'', [], None)]
             [''notes'', ''--ref'', formatNamespaceRef ''dd_notes'', ''show'', TrimSpace ''4b825dc'']
           = ((''a note'', [], None), [])"
    by (simp add: scripted_def)
  have a: "scripted [(''a note'', [], None)]
             [''notes'', ''--ref'', formatNamespaceRef ''dd_notes'', ''add'', ''-f'', ''-m'', ''a note'',
              TrimSpace ''4b825dc''] = ((''a note'', [], None), [])"
    by (simp add: scripted_def)
  have z: "int (length ''a note'') \<le> MaxNoteSize"
    by (simp add: MaxNoteSize_def)
  have t: "TrimSpace ''a note'' = ''a note''"
    by (simp add: TrimSpace_def isSpace_def)
  note th = empty_commit_ref [OF h n a z, of "[]"]
  from th t show ?thesis
    by (simp only: prod_eq_iff fst_conv snd_conv TrimSpace_head ref_dd_notes append_Nil simp_thms)
qed

text \<open>
  The claim as the specification words it fails for \<open>DeleteNote\<close>: with a backend that
  would resolve \<open>HEAD\<close>, the empty reference is rejected and no command is run.
\<close>

theorem empty_commit_ref_counterexample:
  "DeleteNote scripted ''dd_notes'' [] ([(''4b825dc'', [], None), ([], [], None)], []) =
     (Some (ErrorString ''commitSha cannot be empty''),
      ([(''4b825dc'', [], None), ([], [], None)], []))"
  by (simp add: DeleteNote_def)

section \<open>Notes over the maximum size\<close>

text \<open>
  Claim C2, as the code has it. \<open>SetNote\<close> validates the commit reference first, and for
  a reference that is not empty the validation asks the backend (\<open>git rev-parse
  --verify\<close>). For content longer than 10 MiB, \<open>SetNote\<close> returns
  \<open>NoteSizeExceededError\<close> when the reference passes validation and
  \<open>InvalidCommitShaError\<close> when it does not; it leaves the state as the validation left
  it, so the only command it can have run is that \<open>rev-parse --verify\<close>: no note is
  written.
\<close>

theorem SetNote_oversized:
  assumes "int (length val) > MaxNoteSize"
  shows "fst (SetNote git namespace commitSha val st) =
           Some (if fst (validateCommitSHA git commitSha st) = None
                 then NoteSizeExceededError (int (length val)) MaxNoteSize
                 else InvalidCommitShaError commitSha)
         \<and> snd (SetNote git namespace commitSha val st) = snd (validateCommitSHA git commitSha st)
         \<and> snd (snd (SetNote git namespace commitSha val st)) =
             snd st @ (if commitSha \<noteq> [] \<and> isSafeRevisionSpec commitSha
                       then [Git [''rev-parse'', ''--verify'', commitSha]] else [])"
proof -
  obtain r st1 where v: "validateCommitSHA git commitSha st = (r, st1)"
    by (cases "validateCommitSHA git commitSha st")
  have tr: "snd st1 = snd st @ (if commitSha \<noteq> [] \<and> isSafeRevisionSpec commitSha
                       then [Git [''rev-parse'', ''--verify'', commitSha]] else [])"
    using validateCommitSHA_trace [of git commitSha st] v by simp
  show ?thesis
  proof (cases r)
    case None
    with v assms tr show ?thesis by (simp add: SetNote_def)
  next
    case (Some e)
    with v have "e = InvalidCommitShaError commitSha"
      using validateCommitSHA_error [of git commitSha st e] by simp
    with Some v assms tr show ?thesis by (simp add: SetNote_def)
  qed
qed

text \<open>A run with the empty reference: the size error, and no command at all.\<close>

theorem SetNote_oversized_witness:
  "int (length oversized) > MaxNoteSize \<and>
   SetNote scripted ''dd_notes'' [] oversized ([], []) =
     (Some (NoteSizeExceededError 10485761 10485760), ([], []))"
  using SetNote_oversized [of oversized scripted "''dd_notes''" "[]" "([], [])"]
  by (simp add: length_oversized MaxNoteSize_def validateCommitSHA_empty prod_eq_iff)

text \<open>
  The claim as the specification words it fails twice: for the reference \<open>-x\<close> the
  oversized note is answered with \<open>InvalidCommitShaError\<close>, and for the reference
  \<open>HEAD\<close> the size error comes after a backend command.
\<close>

theorem SetNote_oversized_counterexample:
  "fst (SetNote scripted ''dd_notes'' ''-x'' oversized ([], [])) = Some (InvalidCommitShaError ''-x'')
   \<and> SetNote scripted ''dd_notes'' ''HEAD'' oversized ([(''abc'', [], None)], []) =
       (Some (NoteSizeExceededError 10485761 10485760),
        ([], [Git [''rev-parse'', ''--verify'', ''HEAD'']]))"
  by (simp add: SetNote_def validateCommitSHA_def isSafeRevisionSpec_def HasPrefix_def
      executeGitCommand_def scripted_def length_oversized MaxNoteSize_def)

section \<open>Fetching from a remote\<close>

text \<open>
  Claim C10. When the fetch of the namespace ref fails with exit status 1 or with exit
  status 128, \<open>FetchNotes\<close> returns no error, whatever git wrote to standard error and
  whatever the cause; it runs no further command. A failed fetch that \<open>FetchNotes\<close>
  does return as an error is therefore one with another status, and its error text does
  not contain "exit status 1".
\<close>

theorem FetchNotes_exit_status:
  assumes remote: "remoteName \<noteq> []"
    and fetch: "git w [''fetch'', ''--force'', remoteName,
                       formatNamespaceRef namespace @ '':'' @ formatNamespaceRef namespace]
                  = ((out, stderrOutput, Some e), w1)"
  shows "(e = exitStatus 1 \<or> e = exitStatus 128 \<longrightarrow>
            FetchNotes git namespace remoteName (w, tr) =
              (None, (w1, tr @ [Git [''fetch'', ''--force'', remoteName,
                          formatNamespaceRef namespace @ '':'' @ formatNamespaceRef namespace]])))
       \<and> (fst (FetchNotes git namespace remoteName (w, tr)) \<noteq> None \<longrightarrow>
            e \<noteq> exitStatus 1 \<and> e \<noteq> exitStatus 128
            \<and> \<not> Contains (Error (gitError [''fetch'', ''--force'', remoteName,
                          formatNamespaceRef namespace @ '':'' @ formatNamespaceRef namespace]
                        stderrOutput e)) ''exit status 1'')"
proof -
  let ?args = "[''fetch'', ''--force'', remoteName,
                formatNamespaceRef namespace @ '':'' @ formatNamespaceRef namespace]"
  have run: "executeGitCommand git ?args (w, tr) =
               ((out, stderrOutput, Some (gitError ?args stderrOutput e)), (w1, tr @ [Git ?args]))"
    using fetch by (simp add: executeGitCommand_def)
  have missing: "e = exitStatus 1 \<or> e = exitStatus 128 \<Longrightarrow>
                 fetchRefMissing stderrOutput (gitError ?args stderrOutput e)"
    using exit_1_text [of ?args stderrOutput] exit_128_text_1 [of ?args stderrOutput]
    by (auto simp add: fetchRefMissing_def Let_def)
  have ok: "fetchRefMissing stderrOutput (gitError ?args stderrOutput e) \<Longrightarrow>
            FetchNotes git namespace remoteName (w, tr) = (None, (w1, tr @ [Git ?args]))"
    using remote run by (simp add: FetchNotes_def Let_def)
  have surfaced: "fst (FetchNotes git namespace remoteName (w, tr)) \<noteq> None \<Longrightarrow>
                  \<not> fetchRefMissing stderrOutput (gitError ?args stderrOutput e)"
    using ok by auto
  have "fst (FetchNotes git namespace remoteName (w, tr)) \<noteq> None \<Longrightarrow>
          \<not> Contains (Error (gitError ?args stderrOutput e)) ''exit status 1''"
    using surfaced by (simp add: fetchRefMissing_def Let_def)
  with missing ok surfaced show ?thesis by auto
qed

text \<open>A run against a remote that does not exist: git exits with status 128.\<close>

theorem FetchNotes_exit_status_witness:
  "FetchNotes scripted ''dd_notes'' ''nonexistentremote''
     ([([], ''fatal: 'nonexistentremote' does not appear to be a git repository'',
         Some (exitStatus 128))], []) =
     (None, ([], [Git [''fetch'', ''--force'', ''nonexistentremote'',
                       ''refs/notes/dd_notes:refs/notes/dd_notes'']]))"
proof -
  have r: "''nonexistentremote'' \<noteq> []" by simp
  have f: "scripted [([], ''fatal: 'nonexistentremote' does not appear to be a git repository'',
              Some (exitStatus 128))]
             [''fetch'', ''--force'', ''nonexistentremote'',
              formatNamespaceRef ''dd_notes'' @ '':'' @ formatNamespaceRef ''dd_notes'']
           = (([], ''fatal: 'nonexistentremote' does not appear to be a git repository'',
               Some (exitStatus 128)), [])"
    by (simp add: scripted_def)
  from FetchNotes_exit_status [where git = scripted and namespace = "''dd_notes''" and tr = "[]",
      OF r f] show ?thesis
    by (simp add: ref_dd_notes)
qed

section \<open>A failed merge during a push attempt\<close>

text \<open>
  Claim C3, as the code has it. In a push attempt whose fetch succeeded and whose
  remote-tracking ref resolves, a merge that fails without reporting "already up to date"
  or "nothing to merge" is aborted (\<open>git notes merge --abort\<close>); when the local ref
  resolved to a SHA before the merge it is then set back to that SHA (\<open>git
  update-ref\<close>), and when it did not resolve no further command is run: the code has no
  step that removes the ref. The attempt returns an error, which names a conflict when
  git's diagnostics do and carries git's error and diagnostics in either case.
\<close>

theorem merge_failure_rollback:
  assumes abort0: "executeGitCommand git [''notes'', ''--ref'', localRef, ''merge'', ''--abort''] st
                     = (r0, st1)"
    and fetch: "executeGitCommand git [''fetch'', remoteName, localRef] st1 = ((o1, e1, None), st2)"
    and snapshot: "executeGitCommand git [''rev-parse'', localRef] st2 = ((sha, e2, err2), st3)"
    and verify: "executeGitCommand git [''rev-parse'', ''--verify'', tracking] st3
                   = ((o3, e3, None), st4)"
    and merge: "executeGitCommand git
                  [''notes'', ''--ref'', localRef, ''merge'', ''-s'', ''cat_sort_uniq'', tracking] st4
                   = ((o4, mergeStderr, Some mergeErr), st5)"
    and failure: "\<not> mergeUpToDate mergeStderr"
    and localRef: "localRef = formatNamespaceRef namespace"
    and tracking: "tracking = ''refs/remotes/'' @ remoteName @ ''/'' @ TrimPrefix localRef ''refs/''"
  shows "fst (pushNotesAttempt git namespace remoteName st) =
           Some (mergeError tracking localRef mergeStderr mergeErr)
    \<and> snd (snd (pushNotesAttempt git namespace remoteName st)) =
        snd st5 @ [Git [''notes'', ''--ref'', localRef, ''merge'', ''--abort'']]
          @ (if err2 = None \<and> sha \<noteq> []
             then [Git [''update-ref'', localRef, TrimSpace sha]] else [])
    \<and> Error (mergeError tracking localRef mergeStderr mergeErr) =
        (if Contains (ToLower mergeStderr) ''conflict''
         then ''failed to automatically merge notes from '' @ quoted tracking @ '' into ''
              @ quoted localRef @ '' using 'cat_sort_uniq', conflict: ''
         else ''failed to merge notes from '' @ quoted tracking @ '' into '' @ quoted localRef
              @ '': '')
        @ Error mergeErr @ ''; stderr: '' @ mergeStderr"
proof -
  have pre: "HasPrefix localRef ''refs/notes/''"
    unfolding localRef by (simp add: formatNamespaceRef_def HasPrefix_def)
  have m: "mergeRemoteNotes git localRef tracking st2 =
             (Some (mergeError tracking localRef mergeStderr mergeErr),
              (if (if err2 \<noteq> None then [] else sha) \<noteq> []
               then snd (executeGitCommand git [''update-ref'', localRef,
                           TrimSpace (if err2 \<noteq> None then [] else sha)]
                         (snd (executeGitCommand git
                                 [''notes'', ''--ref'', localRef, ''merge'', ''--abort''] st5)))
               else snd (executeGitCommand git
                           [''notes'', ''--ref'', localRef, ''merge'', ''--abort''] st5)))"
    using snapshot verify merge failure by (simp add: mergeRemoteNotes_def Let_def)
  have p: "pushNotesAttempt git namespace remoteName st = mergeRemoteNotes git localRef tracking st2"
    using abort0 fetch pre m localRef tracking
    by (simp add: pushNotesAttempt_def Let_def)
  have t: "snd (snd (mergeRemoteNotes git localRef tracking st2)) =
        snd st5 @ [Git [''notes'', ''--ref'', localRef, ''merge'', ''--abort'']]
          @ (if err2 = None \<and> sha \<noteq> []
             then [Git [''update-ref'', localRef, TrimSpace sha]] else [])"
    unfolding m by (simp add: executeGitCommand_state)
  have e: "Error (mergeError tracking localRef mergeStderr mergeErr) =
        (if Contains (ToLower mergeStderr) ''conflict''
         then ''failed to automatically merge notes from '' @ quoted tracking @ '' into ''
              @ quoted localRef @ '' using 'cat_sort_uniq', conflict: ''
         else ''failed to merge notes from '' @ quoted tracking @ '' into '' @ quoted localRef
              @ '': '')
        @ Error mergeErr @ ''; stderr: '' @ mergeStderr"
    by (simp add: mergeError_def)
  from p m t e show ?thesis by simp
qed

text \<open>A run with a conflict: the local ref is set back to \<open>1f3a9c0\<close>.\<close>

theorem merge_failure_rollback_witness:
  "pushNotesAttempt scripted ''dd_notes'' ''origin'' (conflictRun, []) =
     (Some (mergeError ''refs/remotes/origin/notes/dd_notes'' ''refs/notes/dd_notes''
              ''CONFLICT (content): Merge conflict in notes''
              (gitError [''notes'', ''--ref'', ''refs/notes/dd_notes'', ''merge'', ''-s'',
                         ''cat_sort_uniq'', ''refs/remotes/origin/notes/dd_notes'']
                 ''CONFLICT (content): Merge conflict in notes'' (exitStatus 1))),
      ([], [Git [''notes'', ''--ref'', ''refs/notes/dd_notes'', ''merge'', ''--abort''],
            Git [''fetch'', ''origin'', ''refs/notes/dd_notes''],
            Git [''rev-parse'', ''refs/notes/dd_notes''],
            Git [''rev-parse'', ''--verify'', ''refs/remotes/origin/notes/dd_notes''],
            Git [''notes'', ''--ref'', ''refs/notes/dd_notes'', ''merge'', ''-s'', ''cat_sort_uniq'',
                 ''refs/remotes/origin/notes/dd_notes''],
            Git [''notes'', ''--ref'', ''refs/notes/dd_notes'', ''merge'', ''--abort''],
            Git [''update-ref'', ''refs/notes/dd_notes'', ''1f3a9c0'']]))"
proof -
  let ?ref = "''refs/notes/dd_notes''"
  let ?tracking = "''refs/remotes/origin/notes/dd_notes''"
  let ?abort = "[''notes'', ''--ref'', ?ref, ''merge'', ''--abort'']"
  let ?merge = "[''notes'', ''--ref'', ?ref, ''merge'', ''-s'', ''cat_sort_uniq'', ?tracking]"
  have a: "executeGitCommand scripted ?abort (conflictRun, []) =
             (([], ''error: no merge in progress'',
               Some (gitError ?abort ''error: no merge in progress'' (exitStatus 1))),
              (tl conflictRun, [Git ?abort]))"
    unfolding conflictRun_def scripted_step by simp
  have f: "executeGitCommand scripted [''fetch'', ''origin'', ?ref] (tl conflictRun, [Git ?abort]) =
             (([], [], None), (tl (tl conflictRun), [Git ?abort, Git [''fetch'', ''origin'', ?ref]]))"
    unfolding conflictRun_def list.sel scripted_step by (simp add: TrimSpace_Nil)
  have s: "executeGitCommand scripted [''rev-parse'', ?ref]
             (tl (tl conflictRun), [Git ?abort, Git [''fetch'', ''origin'', ?ref]]) =
             ((''1f3a9c0'', [], None),
              (tl (tl (tl conflictRun)),
               [Git ?abort, Git [''fetch'', ''origin'', ?ref], Git [''rev-parse'', ?ref]]))"
    unfolding conflictRun_def list.sel scripted_step by (simp add: TrimSpace_Nil TrimSpace_1f3a)
  have v: "executeGitCommand scripted [''rev-parse'', ''--verify'', ?tracking]
             (tl (tl (tl conflictRun)),
               [Git ?abort, Git [''fetch'', ''origin'', ?ref], Git [''rev-parse'', ?ref]]) =
             ((''77be1d2'', [], None),
              (tl (tl (tl (tl conflictRun))),
               [Git ?abort, Git [''fetch'', ''origin'', ?ref], Git [''rev-parse'', ?ref],
                Git [''rev-parse'', ''--verify'', ?tracking]]))"
    unfolding conflictRun_def list.sel scripted_step by (simp add: TrimSpace_Nil TrimSpace_77be)
  have m: "executeGitCommand scripted ?merge
             (tl (tl (tl (tl conflictRun))),
               [Git ?abort, Git [''fetch'', ''origin'', ?ref], Git [''rev-parse'', ?ref],
                Git [''rev-parse'', ''--verify'', ?tracking]]) =
             (([], ''CONFLICT (content): Merge conflict in notes'',
               Some (gitError ?merge ''CONFLICT (content): Merge conflict in notes'' (exitStatus 1))),
              ([([], [], None), ([], [], None)],
               [Git ?abort, Git [''fetch'', ''origin'', ?ref], Git [''rev-parse'', ?ref],
                Git [''rev-parse'', ''--verify'', ?tracking], Git ?merge]))"
    unfolding conflictRun_def list.sel scripted_step by simp
  have l: "?ref = formatNamespaceRef ''dd_notes''"
    by (simp add: ref_dd_notes)
  have t: "?tracking = ''refs/remotes/'' @ ''origin'' @ ''/'' @ TrimPrefix ?ref ''refs/''"
    by (simp only: tracking_dd_notes)
  note th = merge_failure_rollback [OF a f s v m conflict_not_upToDate l t]
  have w: "fst (snd (pushNotesAttempt scripted ''dd_notes'' ''origin'' (conflictRun, []))) = []"
    by (simp add: pushNotesAttempt_def mergeRemoteNotes_def Let_def ref_dd_notes HasPrefix_def
        TrimPrefix_dd_notes conflictRun_def scripted_step TrimSpace_Nil TrimSpace_1f3a TrimSpace_77be
        conflict_not_upToDate)
  from th w show ?thesis
    by (simp add: prod_eq_iff TrimSpace_1f3a)
qed

text \<open>
  The claim as the specification words it fails when the local ref was absent before the
  merge: the last command of the attempt is the abort, and nothing removes the ref.
\<close>

theorem merge_failure_rollback_counterexample:
  "pushNotesAttempt scripted ''dd_notes'' ''origin'' (absentRun, []) =
     (Some (mergeError ''refs/remotes/origin/notes/dd_notes'' ''refs/notes/dd_notes''
              ''error: failed to merge''
              (gitError [''notes'', ''--ref'', ''refs/notes/dd_notes'', ''merge'', ''-s'',
                         ''cat_sort_uniq'', ''refs/remotes/origin/notes/dd_notes'']
                 ''error: failed to merge'' (exitStatus 1))),
      ([],
       [Git [''notes'', ''--ref'', ''refs/notes/dd_notes'', ''merge'', ''--abort''],
        Git [''fetch'', ''origin'', ''refs/notes/dd_notes''],
        Git [''rev-parse'', ''refs/notes/dd_notes''],
        Git [''rev-parse'', ''--verify'', ''refs/remotes/origin/notes/dd_notes''],
        Git [''notes'', ''--ref'', ''refs/notes/dd_notes'', ''merge'', ''-s'', ''cat_sort_uniq'',
             ''refs/remotes/origin/notes/dd_notes''],
        Git [''notes'', ''--ref'', ''refs/notes/dd_notes'', ''merge'', ''--abort'']]))"
  by (simp add: pushNotesAttempt_def mergeRemoteNotes_def Let_def ref_dd_notes HasPrefix_def
      TrimPrefix_dd_notes absentRun_def scripted_step TrimSpace_Nil TrimSpace_77be
      failed_not_upToDate exitStatus_Suc_0 exitStatus_1)

section \<open>Retrying a push\<close>

lemma sleepsOf_append: "sleepsOf (xs @ ys) = sleepsOf xs @ sleepsOf ys"
  by (induction xs rule: sleepsOf.induct) simp_all

lemma sleepsOf_exec: "sleepsOf (snd (snd (executeGitCommand git args st))) = sleepsOf (snd st)"
  by (simp add: executeGitCommand_state sleepsOf_append)

lemma attemptsOf_exec:
  "attemptsOf namespace remoteName (snd (snd (executeGitCommand git args st))) =
     attemptsOf namespace remoteName (snd st)
       + (if args = [''fetch'', remoteName, formatNamespaceRef namespace] then 1 else 0)"
  by (simp add: executeGitCommand_state attemptsOf_def)

lemma exec_cases:
  obtains out err r st' where "executeGitCommand git args st = ((out, err, r), st')"
    and "snd st' = snd st @ [Git args]"
proof -
  obtain out err r st' where e: "executeGitCommand git args st = ((out, err, r), st')"
    by (metis prod_cases3 surj_pair)
  moreover have "snd st' = snd st @ [Git args]"
    using executeGitCommand_state [of git args st] e by simp
  ultimately show ?thesis using that by blast
qed

lemma mergeRemoteNotes_sleeps:
  "sleepsOf (snd (snd (mergeRemoteNotes git localRef tracking st))) = sleepsOf (snd st)"
proof -
  obtain o1 e1 r1 st1 where
    a: "executeGitCommand git [''rev-parse'', localRef] st = ((o1, e1, r1), st1)"
    and a': "snd st1 = snd st @ [Git [''rev-parse'', localRef]]"
    by (rule exec_cases)
  obtain o2 e2 r2 st2 where
    b: "executeGitCommand git [''rev-parse'', ''--verify'', tracking] st1 = ((o2, e2, r2), st2)"
    and b': "snd st2 = snd st1 @ [Git [''rev-parse'', ''--verify'', tracking]]"
    by (rule exec_cases)
  obtain o3 e3 r3 st3 where
    c: "executeGitCommand git
          [''notes'', ''--ref'', localRef, ''merge'', ''-s'', ''cat_sort_uniq'', tracking] st2
          = ((o3, e3, r3), st3)"
    and c': "snd st3 = snd st2 @
          [Git [''notes'', ''--ref'', localRef, ''merge'', ''-s'', ''cat_sort_uniq'', tracking]]"
    by (rule exec_cases)
  show ?thesis
    using a a' b b' c c'
    by (cases r2; cases r3)
       (simp_all add: mergeRemoteNotes_def Let_def sleepsOf_exec sleepsOf_append)
qed

lemma mergeRemoteNotes_attempts:
  "attemptsOf namespace remoteName (snd (snd (mergeRemoteNotes git localRef tracking st))) =
     attemptsOf namespace remoteName (snd st)"
proof -
  obtain o1 e1 r1 st1 where
    a: "executeGitCommand git [''rev-parse'', localRef] st = ((o1, e1, r1), st1)"
    and a': "snd st1 = snd st @ [Git [''rev-parse'', localRef]]"
    by (rule exec_cases)
  obtain o2 e2 r2 st2 where
    b: "executeGitCommand git [''rev-parse'', ''--verify'', tracking] st1 = ((o2, e2, r2), st2)"
    and b': "snd st2 = snd st1 @ [Git [''rev-parse'', ''--verify'', tracking]]"
    by (rule exec_cases)
  obtain o3 e3 r3 st3 where
    c: "executeGitCommand git
          [''notes'', ''--ref'', localRef, ''merge'', ''-s'', ''cat_sort_uniq'', tracking] st2
          = ((o3, e3, r3), st3)"
    and c': "snd st3 = snd st2 @
          [Git [''notes'', ''--ref'', localRef, ''merge'', ''-s'', ''cat_sort_uniq'', tracking]]"
    by (rule exec_cases)
  show ?thesis
    using a a' b b' c c'
    by (cases r2; cases r3)
       (simp_all add: mergeRemoteNotes_def Let_def attemptsOf_exec, simp_all add: attemptsOf_def)
qed

lemma exec_sleepsD:
  "executeGitCommand git args st = (r, st') \<Longrightarrow> sleepsOf (snd st') = sleepsOf (snd st)"
  using sleepsOf_exec [of git args st] by simp

lemma merge_sleepsD:
  "mergeRemoteNotes git localRef tracking st = (r, st') \<Longrightarrow> sleepsOf (snd st') = sleepsOf (snd st)"
  using mergeRemoteNotes_sleeps [of git localRef tracking st] by simp

lemma exec_attemptsD:
  "executeGitCommand git args st = (r, st') \<Longrightarrow>
   attemptsOf namespace remoteName (snd st') =
     attemptsOf namespace remoteName (snd st)
       + (if args = [''fetch'', remoteName, formatNamespaceRef namespace] then 1 else 0)"
  using attemptsOf_exec [of namespace remoteName git args st] by simp

lemma merge_attemptsD:
  "mergeRemoteNotes git localRef tracking st = (r, st') \<Longrightarrow>
   attemptsOf namespace remoteName (snd st') = attemptsOf namespace remoteName (snd st)"
  using mergeRemoteNotes_attempts [of namespace remoteName git localRef tracking st] by simp

lemma pushNotesAttempt_sleeps:
  "sleepsOf (snd (snd (pushNotesAttempt git namespace remoteName st))) = sleepsOf (snd st)"
  unfolding pushNotesAttempt_def Let_def
  by (auto split: prod.splits option.splits sum.splits if_splits
      dest!: exec_sleepsD merge_sleepsD simp add: sleepsOf_exec)

lemma pushNotesAttempt_attempts:
  "attemptsOf namespace remoteName (snd (snd (pushNotesAttempt git namespace remoteName st))) =
     Suc (attemptsOf namespace remoteName (snd st))"
  unfolding pushNotesAttempt_def Let_def
  by (auto split: prod.splits option.splits sum.splits if_splits
      dest!: exec_attemptsD [where namespace = namespace and remoteName = remoteName]
             merge_attemptsD [where namespace = namespace and remoteName = remoteName]
      simp add: attemptsOf_exec)

lemma backoff_small:
  assumes "0 \<le> k" "k \<le> 303700"
  shows "backoff k = k * k * 100000000"
proof -
  have kk: "k * k \<le> 303700 * 303700"
    using assms by (intro mult_mono) auto
  have nonneg: "0 \<le> k * k" by simp
  have eq: "(word_of_int (k * k) :: 64 word) * 100 * 1000000 = word_of_int (k * k * 100000000)"
    by simp
  have lo: "- (2 ^ 63) \<le> k * k * 100000000"
    using nonneg by (smt (verit) mult_nonneg_nonneg zero_le_power)
  have hi: "k * k * 100000000 < 2 ^ 63"
    using kk by simp
  show ?thesis
    unfolding backoff_def eq sint_sbintrunc'
    using lo hi by (simp add: signed_take_bit_int_eq_self)
qed

lemma pushAttempts_last:
  assumes "pushNotesAttempt git namespace remoteName st = (r, st')"
    and "attempt < maxRetries"
    and "r = None \<or> \<not> pushRetryable (the r) \<or> attempt = maxRetries - 1"
  shows "pushAttempts git namespace remoteName maxRetries attempt st = (r, st')"
  using assms by (subst pushAttempts.simps) (auto split: option.splits)

lemma pushAttempts_retry:
  assumes "pushNotesAttempt git namespace remoteName st = (Some err, st')"
    and "pushRetryable err" and "attempt < maxRetries - 1"
  shows "pushAttempts git namespace remoteName maxRetries attempt st =
           pushAttempts git namespace remoteName maxRetries (attempt + 1)
             (fst st', snd st' @ [Sleep (backoff attempt)])"
  using assms by (subst pushAttempts.simps) simp

lemma pushAttempts_none:
  assumes "\<not> attempt < maxRetries"
  shows "pushAttempts git namespace remoteName maxRetries attempt st =
           (Some (ErrorString (''push failed after '' @ itoa maxRetries @ '' attempts'')), st)"
  using assms by (subst pushAttempts.simps) simp

lemma pushAttempts_exhaust:
  assumes failing: "\<And>s. \<exists>err s'. pushNotesAttempt git namespace remoteName s = (Some err, s')
                            \<and> pushRetryable err"
  shows "n = nat (maxRetries - 1 - attempt) \<Longrightarrow> attempt < maxRetries \<Longrightarrow>
         \<exists>err st'. pushAttempts git namespace remoteName maxRetries attempt st = (Some err, st')
           \<and> pushRetryable err
           \<and> (\<exists>s. fst (pushNotesAttempt git namespace remoteName s) = Some err)
           \<and> sleepsOf (snd st') = sleepsOf (snd st) @ map backoff [attempt..maxRetries - 2]
           \<and> attemptsOf namespace remoteName (snd st') =
               attemptsOf namespace remoteName (snd st) + nat (maxRetries - attempt)"
proof (induction n arbitrary: attempt st)
  case 0
  then have last: "attempt = maxRetries - 1" by simp
  obtain err st1 where a: "pushNotesAttempt git namespace remoteName st = (Some err, st1)"
    and re: "pushRetryable err"
    using failing by blast
  have p: "pushAttempts git namespace remoteName maxRetries attempt st = (Some err, st1)"
    using a last "0.prems"(2) by (intro pushAttempts_last) auto
  have s: "sleepsOf (snd st1) = sleepsOf (snd st)"
    using pushNotesAttempt_sleeps [of git namespace remoteName st] a by simp
  have c: "attemptsOf namespace remoteName (snd st1) = Suc (attemptsOf namespace remoteName (snd st))"
    using pushNotesAttempt_attempts [of namespace remoteName git st] a by simp
  have f: "\<exists>s. fst (pushNotesAttempt git namespace remoteName s) = Some err"
    using a by (metis fst_conv)
  have u: "[attempt..maxRetries - 2] = []"
    using last by simp
  have k: "nat (maxRetries - attempt) = 1"
    using last by simp
  show ?case
    unfolding p u k using re s c f by simp
next
  case (Suc n)
  then have more: "attempt < maxRetries - 1" by simp
  obtain err st1 where a: "pushNotesAttempt git namespace remoteName st = (Some err, st1)"
    and re: "pushRetryable err"
    using failing by blast
  let ?st2 = "(fst st1, snd st1 @ [Sleep (backoff attempt)])"
  have p: "pushAttempts git namespace remoteName maxRetries attempt st =
           pushAttempts git namespace remoteName maxRetries (attempt + 1) ?st2"
    using a re more by (rule pushAttempts_retry)
  have s: "sleepsOf (snd st1) = sleepsOf (snd st)"
    using pushNotesAttempt_sleeps [of git namespace remoteName st] a by simp
  have c: "attemptsOf namespace remoteName (snd st1) = Suc (attemptsOf namespace remoteName (snd st))"
    using pushNotesAttempt_attempts [of namespace remoteName git st] a by simp
  have n: "n = nat (maxRetries - 1 - (attempt + 1))" using Suc.prems(1) by simp
  have lt: "attempt + 1 < maxRetries" using more by simp
  from Suc.IH [OF n lt, of ?st2] obtain err' st' where
    r: "pushAttempts git namespace remoteName maxRetries (attempt + 1) ?st2 = (Some err', st')"
    and re': "pushRetryable err'"
    and f': "\<exists>s. fst (pushNotesAttempt git namespace remoteName s) = Some err'"
    and s': "sleepsOf (snd st') = sleepsOf (snd ?st2) @ map backoff [attempt + 1..maxRetries - 2]"
    and c': "attemptsOf namespace remoteName (snd st') =
               attemptsOf namespace remoteName (snd ?st2) + nat (maxRetries - (attempt + 1))"
    by blast
  have up: "[attempt..maxRetries - 2] = attempt # [attempt + 1..maxRetries - 2]"
    using more by (intro upto_rec1) simp
  have s2: "sleepsOf (snd ?st2) = sleepsOf (snd st) @ [backoff attempt]"
    using s by (simp add: sleepsOf_append)
  have c2: "attemptsOf namespace remoteName (snd ?st2) = Suc (attemptsOf namespace remoteName (snd st))"
    using c by (simp add: attemptsOf_def)
  have cnt: "Suc (attemptsOf namespace remoteName (snd st)) + nat (maxRetries - (attempt + 1))
               = attemptsOf namespace remoteName (snd st) + nat (maxRetries - attempt)"
    using more by simp
  show ?case
    unfolding p r up using re' f' s' c' s2 c2 cnt by simp
qed

lemma Contains_embed: "Contains s sub \<Longrightarrow> Contains (a @ s @ b) sub"
proof -
  assume "Contains s sub"
  then obtain c d where "s = c @ sub @ d" by (auto simp: Contains_iff)
  then have "a @ s @ b = (a @ c) @ sub @ (d @ b)" by simp
  then show ?thesis unfolding Contains_iff by blast
qed

lemma contended_ok:
  "hd args \<noteq> ''push'' \<Longrightarrow>
   executeGitCommand contended args (w, tr) = ((''4b825dc'', [], None), (w, tr @ [Git args]))"
  by (simp add: executeGitCommand_def contended_def TrimSpace_head TrimSpace_Nil)

lemma contended_push:
  "executeGitCommand contended (''push'' # args) (w, tr) =
     (([], rejected, Some (gitError (''push'' # args) rejected (exitStatus 1))),
      (w, tr @ [Git (''push'' # args)]))"
  by (simp add: executeGitCommand_def contended_def)

lemma contended_attempt:
  "pushNotesAttempt contended ''dd_notes'' ''origin'' (w, tr) =
     (Some rejectedPush,
      (w, tr @ [Git [''notes'', ''--ref'', ''refs/notes/dd_notes'', ''merge'', ''--abort''],
                Git [''fetch'', ''origin'', ''refs/notes/dd_notes''],
                Git [''rev-parse'', ''refs/notes/dd_notes''],
                Git [''rev-parse'', ''--verify'', ''refs/remotes/origin/notes/dd_notes''],
                Git [''notes'', ''--ref'', ''refs/notes/dd_notes'', ''merge'', ''-s'',
                     ''cat_sort_uniq'', ''refs/remotes/origin/notes/dd_notes''],
                Git [''push'', ''origin'', ''refs/notes/dd_notes'']]))"
  by (simp add: pushNotesAttempt_def mergeRemoteNotes_def Let_def ref_dd_notes HasPrefix_def
      TrimPrefix_dd_notes contended_ok contended_push rejectedPush_def)

lemma rejected_text: "Contains rejected ''rejected''"
  by code_simp

lemma rejectedPush_retryable: "pushRetryable rejectedPush"
proof -
  have e: "Error rejectedPush =
          (''failed to push merged notes ref '' @ quoted ''refs/notes/dd_notes''
           @ '' to remote '' @ quoted ''origin'' @ '': ''
           @ Error (gitError [''push'', ''origin'', ''refs/notes/dd_notes''] rejected (exitStatus 1))
           @ ''; stderr: '') @ rejected @ []"
    by (simp add: rejectedPush_def)
  have "Contains (Error rejectedPush) ''rejected''"
    unfolding e by (rule Contains_embed [OF rejected_text])
  then show ?thesis unfolding pushRetryable_def by blast
qed

text \<open>
  Claim C4, as the code has it. \<open>PushNotesWithRetry\<close> makes at most \<open>maxRetries\<close>
  attempts (\<open>PushNotes\<close>: 3). An attempt that fails with a retryable error while
  attempts remain is followed by a pause of \<open>attempt\<^sup>2 \<times> 100 ms\<close>, the attempts counted
  from 0 (so the first pause is empty), and by the next attempt. An error that is not
  retryable is returned at once. When every attempt fails with a retryable error, all
  \<open>maxRetries\<close> attempts are made, with the pauses \<open>0, 100 ms, 400 ms, \<dots>\<close> between
  them, and the error returned is the one of the last attempt: the error "push failed
  after N attempts" is returned only when \<open>maxRetries\<close> is zero or negative and no
  attempt is made at all.
\<close>

theorem push_retry:
  assumes remote: "remoteName \<noteq> []"
  shows "(0 < maxRetries \<and>
          (\<forall>s. \<exists>err s'. pushNotesAttempt git namespace remoteName s = (Some err, s')
                  \<and> pushRetryable err) \<longrightarrow>
          (\<exists>err st'. PushNotesWithRetry git namespace remoteName maxRetries st = (Some err, st')
             \<and> pushRetryable err
             \<and> (\<exists>s. fst (pushNotesAttempt git namespace remoteName s) = Some err)
             \<and> sleepsOf (snd st') = sleepsOf (snd st) @ map backoff [0..maxRetries - 2]
             \<and> attemptsOf namespace remoteName (snd st') =
                 attemptsOf namespace remoteName (snd st) + nat maxRetries))
    \<and> (0 < maxRetries \<longrightarrow>
         (\<forall>err st'. pushNotesAttempt git namespace remoteName st = (Some err, st')
             \<and> \<not> pushRetryable err \<longrightarrow>
           PushNotesWithRetry git namespace remoteName maxRetries st = (Some err, st')))
    \<and> (1 < maxRetries \<longrightarrow>
         (\<forall>err st'. pushNotesAttempt git namespace remoteName st = (Some err, st')
             \<and> pushRetryable err \<longrightarrow>
           PushNotesWithRetry git namespace remoteName maxRetries st =
             pushAttempts git namespace remoteName maxRetries 1
               (fst st', snd st' @ [Sleep (backoff 0)])))
    \<and> (maxRetries \<le> 0 \<longrightarrow>
         PushNotesWithRetry git namespace remoteName maxRetries st =
           (Some (ErrorString (''push failed after '' @ itoa maxRetries @ '' attempts'')), st))
    \<and> (\<forall>k. 0 \<le> k \<and> k \<le> 303700 \<longrightarrow> backoff k = k * k * 100000000)
    \<and> PushNotes git namespace remoteName st = PushNotesWithRetry git namespace remoteName 3 st"
proof -
  have p: "PushNotesWithRetry git namespace remoteName maxRetries st =
             pushAttempts git namespace remoteName maxRetries 0 st"
    using remote by (simp add: PushNotesWithRetry_def)
  have exhaust: "0 < maxRetries \<and>
          (\<forall>s. \<exists>err s'. pushNotesAttempt git namespace remoteName s = (Some err, s')
                  \<and> pushRetryable err) \<longrightarrow>
          (\<exists>err st'. PushNotesWithRetry git namespace remoteName maxRetries st = (Some err, st')
             \<and> pushRetryable err
             \<and> (\<exists>s. fst (pushNotesAttempt git namespace remoteName s) = Some err)
             \<and> sleepsOf (snd st') = sleepsOf (snd st) @ map backoff [0..maxRetries - 2]
             \<and> attemptsOf namespace remoteName (snd st') =
                 attemptsOf namespace remoteName (snd st) + nat maxRetries)"
  proof
    assume h: "0 < maxRetries \<and>
          (\<forall>s. \<exists>err s'. pushNotesAttempt git namespace remoteName s = (Some err, s')
                  \<and> pushRetryable err)"
    then have f: "\<And>s. \<exists>err s'. pushNotesAttempt git namespace remoteName s = (Some err, s')
                  \<and> pushRetryable err" by blast
    from h have lt: "0 < maxRetries" by blast
    from pushAttempts_exhaust [of git namespace remoteName "nat (maxRetries - 1 - 0)" maxRetries 0 st,
        OF f refl lt]
    show "\<exists>err st'. PushNotesWithRetry git namespace remoteName maxRetries st = (Some err, st')
             \<and> pushRetryable err
             \<and> (\<exists>s. fst (pushNotesAttempt git namespace remoteName s) = Some err)
             \<and> sleepsOf (snd st') = sleepsOf (snd st) @ map backoff [0..maxRetries - 2]
             \<and> attemptsOf namespace remoteName (snd st') =
                 attemptsOf namespace remoteName (snd st) + nat maxRetries"
      unfolding p by simp
  qed
  have final: "0 < maxRetries \<longrightarrow>
         (\<forall>err st'. pushNotesAttempt git namespace remoteName st = (Some err, st')
             \<and> \<not> pushRetryable err \<longrightarrow>
           PushNotesWithRetry git namespace remoteName maxRetries st = (Some err, st'))"
    unfolding p using pushAttempts_last [of git namespace remoteName st _ _ 0 maxRetries]
    by auto
  have retry: "1 < maxRetries \<longrightarrow>
         (\<forall>err st'. pushNotesAttempt git namespace remoteName st = (Some err, st')
             \<and> pushRetryable err \<longrightarrow>
           PushNotesWithRetry git namespace remoteName maxRetries st =
             pushAttempts git namespace remoteName maxRetries 1
               (fst st', snd st' @ [Sleep (backoff 0)]))"
    unfolding p using pushAttempts_retry [of git namespace remoteName st _ _ 0 maxRetries]
    by auto
  have none: "maxRetries \<le> 0 \<longrightarrow>
         PushNotesWithRetry git namespace remoteName maxRetries st =
           (Some (ErrorString (''push failed after '' @ itoa maxRetries @ '' attempts'')), st)"
    unfolding p using pushAttempts_none [of 0 maxRetries git namespace remoteName st] by auto
  have b: "\<forall>k. 0 \<le> k \<and> k \<le> 303700 \<longrightarrow> backoff k = k * k * 100000000"
    using backoff_small by blast
  have d: "PushNotes git namespace remoteName st = PushNotesWithRetry git namespace remoteName 3 st"
    by (simp add: PushNotes_def DefaultRetryAttempts_def)
  from exhaust final retry none b d show ?thesis by blast
qed

text \<open>Three attempts against the contended remote: pauses of 0 and 100 ms.\<close>

theorem push_retry_witness:
  "sleepsOf (snd (snd (PushNotesWithRetry contended ''dd_notes'' ''origin'' 3 ((), []))))
     = [0, 100000000]
   \<and> attemptsOf ''dd_notes'' ''origin''
        (snd (snd (PushNotesWithRetry contended ''dd_notes'' ''origin'' 3 ((), [])))) = 3
   \<and> pushRetryable (the (fst (PushNotesWithRetry contended ''dd_notes'' ''origin'' 3 ((), []))))"
proof -
  have r: "''origin'' \<noteq> []" by simp
  have f: "\<forall>s. \<exists>err s'. pushNotesAttempt contended ''dd_notes'' ''origin'' s = (Some err, s')
              \<and> pushRetryable err"
  proof
    fix s :: "unit state"
    obtain w tr where s: "s = (w, tr)" by (cases s)
    show "\<exists>err s'. pushNotesAttempt contended ''dd_notes'' ''origin'' s = (Some err, s')
              \<and> pushRetryable err"
      unfolding s contended_attempt using rejectedPush_retryable by blast
  qed
  have b0: "backoff 0 = 0" using backoff_small [of 0] by simp
  have b1: "backoff 1 = 100000000" using backoff_small [of 1] by simp
  have u: "[0..(3::int) - 2] = [0, 1]"
    by (simp add: upto_rec1)
  from push_retry [OF r, of 3 contended "''dd_notes''" "((), [])"] f
  obtain err st' where
    "PushNotesWithRetry contended ''dd_notes'' ''origin'' 3 ((), []) = (Some err, st')"
    "pushRetryable err"
    "sleepsOf (snd st') = sleepsOf (snd ((), [])) @ map backoff [0..3 - 2]"
    "attemptsOf ''dd_notes'' ''origin'' (snd st') =
       attemptsOf ''dd_notes'' ''origin'' (snd ((), [])) + nat 3"
    by auto
  then show ?thesis
    unfolding u by (simp add: b0 b1 attemptsOf_def)
qed

text \<open>
  The claim as the specification words it fails on the error of the exhausted retries:
  after three rejected pushes the caller gets the error of the third push.
\<close>

theorem push_retry_counterexample:
  "Error (the (fst (PushNotesWithRetry contended ''dd_notes'' ''origin'' 3 ((), [])))) =
     ''failed to push merged notes ref 'refs/notes/dd_notes' to remote 'origin': git push failed with exit code 1: exit status 1; stderr:  ! [rejected] refs/notes/dd_notes -> refs/notes/dd_notes (fetch first); stderr:  ! [rejected] refs/notes/dd_notes -> refs/notes/dd_notes (fetch first)''
   \<and> Error (the (fst (PushNotesWithRetry contended ''dd_notes'' ''origin'' 3 ((), []))))
       \<noteq> ''push failed after 3 attempts''"
proof -
  have a0: "pushAttempts contended ''dd_notes'' ''origin'' 3 2 ((), tr) =
              (Some rejectedPush, snd (pushNotesAttempt contended ''dd_notes'' ''origin'' ((), tr)))"
    for tr
    by (rule pushAttempts_last) (simp_all add: contended_attempt)
  have a1: "pushAttempts contended ''dd_notes'' ''origin'' 3 1 ((), tr) =
              pushAttempts contended ''dd_notes'' ''origin'' 3 (1 + 1)
                (fst (snd (pushNotesAttempt contended ''dd_notes'' ''origin'' ((), tr))),
                 snd (snd (pushNotesAttempt contended ''dd_notes'' ''origin'' ((), tr)))
                   @ [Sleep (backoff 1)])"
    for tr
    by (rule pushAttempts_retry [where err = rejectedPush])
       (simp_all add: contended_attempt rejectedPush_retryable)
  have a2: "pushAttempts contended ''dd_notes'' ''origin'' 3 0 ((), tr) =
              pushAttempts contended ''dd_notes'' ''origin'' 3 (0 + 1)
                (fst (snd (pushNotesAttempt contended ''dd_notes'' ''origin'' ((), tr))),
                 snd (snd (pushNotesAttempt contended ''dd_notes'' ''origin'' ((), tr)))
                   @ [Sleep (backoff 0)])"
    for tr
    by (rule pushAttempts_retry [where err = rejectedPush])
       (simp_all add: contended_attempt rejectedPush_retryable)
  have "fst (PushNotesWithRetry contended ''dd_notes'' ''origin'' 3 ((), [])) = Some rejectedPush"
    by (simp add: PushNotesWithRetry_def a2 a1 a0)
  moreover have "Error rejectedPush =
     ''failed to push merged notes ref 'refs/notes/dd_notes' to remote 'origin': git push failed with exit code 1: exit status 1; stderr:  ! [rejected] refs/notes/dd_notes -> refs/notes/dd_notes (fetch first); stderr:  ! [rejected] refs/notes/dd_notes -> refs/notes/dd_notes (fetch first)''"
    by code_simp
  ultimately show ?thesis by simp
qed

section \<open>Bulk reads: the two maps\<close>






lemma Background_exec:
  "executeGitCommandContext Background git args st = executeGitCommand git args st"
  by (simp add: executeGitCommandContext_def executeGitCommand_def Background_def
      split: prod.splits option.splits)








section \<open>Decoding a stream of JSON documents\<close>

lemma decodeObjects_bound:
  "length results = objectCount \<Longrightarrow> objectCount \<le> MaxJSONObjects \<Longrightarrow>
   length (fst (decodeObjects c commitSha noteContent pos results objectCount)) \<le> MaxJSONObjects"
proof (induction c commitSha noteContent pos results objectCount rule: decodeObjects.induct)
  case (1 c commitSha noteContent pos results objectCount)
  show ?case
  proof (cases "More c noteContent pos")
    case False
    then show ?thesis using "1.prems" by (subst decodeObjects.simps) simp
  next
    case True
    show ?thesis
    proof (cases "objectCount \<ge> MaxJSONObjects")
      case True
      with \<open>More c noteContent pos\<close> "1.prems" show ?thesis
        by (subst decodeObjects.simps) simp
    next
      case False
      show ?thesis
      proof (cases "Decode c noteContent pos")
        case (Inl failure)
        obtain errDecode offset where "failure = (errDecode, offset)" by (cases failure)
        with Inl False \<open>More c noteContent pos\<close> "1.prems" show ?thesis
          by (subst decodeObjects.simps) simp
      next
        case (Inr success)
        obtain currentElem pos' where s: "success = (currentElem, pos')" by (cases success)
        have "length (fst (decodeObjects c commitSha noteContent pos' (results @ [currentElem])
                (objectCount + 1))) \<le> MaxJSONObjects"
          using "1.IH" [OF \<open>More c noteContent pos\<close> False Inr s [symmetric]] "1.prems" False
          by simp
        with Inr s False \<open>More c noteContent pos\<close> show ?thesis
          by (subst decodeObjects.simps) simp
      qed
    qed
  qed
qed

lemma decodeObjects_stream:
  "decodesFrom c noteContent pos vs pos' \<Longrightarrow> length results + length vs \<le> MaxJSONObjects \<Longrightarrow>
   decodeObjects c commitSha noteContent pos results (length results) =
     decodeObjects c commitSha noteContent pos' (results @ vs) (length results + length vs)"
proof (induction vs arbitrary: pos results)
  case Nil
  then show ?case by simp
next
  case (Cons v vs)
  from Cons.prems(1) obtain pos1 where m: "More c noteContent pos"
    and d: "Decode c noteContent pos = Inr (v, pos1)"
    and rest: "decodesFrom c noteContent pos1 vs pos'"
    by (auto split: sum.splits)
  have lt: "\<not> length results \<ge> MaxJSONObjects"
    using Cons.prems(2) by simp
  have step: "decodeObjects c commitSha noteContent pos results (length results) =
              decodeObjects c commitSha noteContent pos1 (results @ [v]) (length results + 1)"
    using m d lt by (subst decodeObjects.simps) simp
  have "decodeObjects c commitSha noteContent pos1 (results @ [v]) (length (results @ [v])) =
        decodeObjects c commitSha noteContent pos' ((results @ [v]) @ vs)
          (length (results @ [v]) + length vs)"
    using Cons.prems(2) by (intro Cons.IH [OF rest]) simp
  with step show ?case by simp
qed

lemma decodeObjects_stop:
  "\<not> More c noteContent pos \<Longrightarrow>
   decodeObjects c commitSha noteContent pos results objectCount = (results, None)"
  by (subst decodeObjects.simps) simp

lemma decodeObjects_limit:
  "More c noteContent pos \<Longrightarrow> objectCount \<ge> MaxJSONObjects \<Longrightarrow>
   decodeObjects c commitSha noteContent pos results objectCount = (results, Some limitError)"
  by (subst decodeObjects.simps) simp



lemma textCodec_doc:
  "More textCodec (pre @ doc @ post) (length pre)"
  "Decode textCodec (pre @ doc @ post) (length pre) = Inr (''a'', length (pre @ doc))"
  by (simp_all add: textCodec_def doc_def isSpace_def Let_def)

lemma textCodec_docs:
  "decodesFrom textCodec (pre @ concat (replicate k doc) @ post) (length pre)
     (replicate k ''a'') (length pre + 3 * k)"
proof (induction k arbitrary: pre)
  case 0
  show ?case by simp
next
  case (Suc k)
  have c: "pre @ concat (replicate (Suc k) doc) @ post =
           pre @ doc @ (concat (replicate k doc) @ post)"
    by simp
  have c': "pre @ concat (replicate (Suc k) doc) @ post =
           (pre @ doc) @ concat (replicate k doc) @ post"
    by simp
  have l: "length (pre @ doc) = length pre + 3"
    by (simp add: doc_def)
  have "decodesFrom textCodec ((pre @ doc) @ concat (replicate k doc) @ post) (length (pre @ doc))
          (replicate k ''a'') (length (pre @ doc) + 3 * k)"
    by (rule Suc.IH)
  then have ih: "decodesFrom textCodec (pre @ concat (replicate (Suc k) doc) @ post)
          (length (pre @ doc)) (replicate k ''a'') (length pre + 3 * Suc k)"
    unfolding c' l by (simp add: algebra_simps)
  have m: "More textCodec (pre @ concat (replicate (Suc k) doc) @ post) (length pre)"
    unfolding c by (rule textCodec_doc)
  have d: "Decode textCodec (pre @ concat (replicate (Suc k) doc) @ post) (length pre) =
             Inr (''a'', length (pre @ doc))"
    unfolding c by (rule textCodec_doc)
  show ?case
    using m d ih by (simp del: replicate.simps concat.simps add: replicate_Suc [of k "''a''"])
qed

lemma length_docs: "length (concat (replicate k doc)) = 3 * k"
  by (induction k) (simp_all add: doc_def)

lemma thousand_docs:
  "decodesFrom textCodec (concat (replicate 1000 doc) @ post) 0 (replicate 1000 ''a'') 3000"
  using textCodec_docs [of "[]" 1000 post] by simp

lemma GetNoteJSON_decodes:
  assumes "GetNote git namespace commitSha st = (Inr noteContent, st1)"
    and "commitSha \<noteq> []" and "TrimSpace noteContent \<noteq> []"
  shows "GetNoteJSON c git namespace commitSha st =
           (decodeObjects c commitSha noteContent 0 [] 0, st1)"
  using assms by (simp add: GetNoteJSON_def)

lemma GetNoteJSON_bound:
  "length (fst (fst (GetNoteJSON c git namespace commitSha st))) \<le> MaxJSONObjects"
proof -
  have b: "length (fst (decodeObjects c commitSha noteContent 0 [] 0)) \<le> MaxJSONObjects"
    for noteContent
    by (rule decodeObjects_bound) simp_all
  obtain r st1 where g: "GetNote git namespace commitSha st = (r, st1)"
    by (metis surj_pair)
  show ?thesis
    using g b by (cases r) (simp_all add: GetNoteJSON_def)
qed

lemma TrimSpace_id:
  assumes "s \<noteq> []" "\<not> isSpace (hd s)" "\<not> isSpace (last s)"
  shows "TrimSpace s = s"
proof -
  have a: "dropWhile isSpace s = s"
    using assms(1,2) by (cases s) simp_all
  have r: "rev s = last s # rev (butlast s)"
    using assms(1) by (metis append_butlast_last_id rev.simps(2) rev_rev_ident rev_swap
        rev_append append_Cons append_Nil)
  have "dropWhile isSpace (last s # rev (butlast s)) = last s # rev (butlast s)"
    using assms(3) by simp
  then have b: "dropWhile isSpace (rev s) = rev s"
    by (simp only: r)
  show ?thesis
    unfolding TrimSpace_def a b by simp
qed


lemma textCodec_end: "\<not> More textCodec s (length s)"
  by (simp add: textCodec_def)

lemma GetNote_scripted:
  assumes "isSafeRevisionSpec commitSha" "commitSha \<noteq> []" "TrimSpace noteContent = noteContent"
  shows "GetNote scripted namespace commitSha ([(out, [], None), (noteContent, [], None)], []) =
           (Inr noteContent,
            ([], [Git [''rev-parse'', ''--verify'', commitSha],
                  Git [''notes'', ''--ref'', formatNamespaceRef namespace, ''show'', commitSha]]))"
  using assms
  by (simp add: GetNote_def GetNoteWithContext_def Background_exec validateCommitSHA_def
      scripted_step Let_def)

lemma safe_4b: "isSafeRevisionSpec ''4b825dc''"
  by (simp add: isSafeRevisionSpec_def HasPrefix_def)


lemma concat_1000: "concat (replicate 1000 doc) = doc @ concat (replicate 999 doc)"
proof -
  have "(1000::nat) = Suc 999" by simp
  then show ?thesis by (simp only: replicate_Suc concat.simps)
qed


lemma TrimSpace_thousandAndOne: "TrimSpace thousandAndOne = thousandAndOne"
proof (rule TrimSpace_id)
  show "thousandAndOne \<noteq> []"
    by (simp add: thousandAndOne_def doc_def)
  show "\<not> isSpace (hd thousandAndOne)"
    unfolding thousandAndOne_def concat_1000 by (simp add: doc_def isSpace_def)
  show "\<not> isSpace (last thousandAndOne)"
    unfolding thousandAndOne_def by (simp add: doc_def isSpace_def)
qed

lemma validateCommitSHA_ok:
  assumes "isSafeRevisionSpec sha" "sha \<noteq> []"
    and "git w [''rev-parse'', ''--verify'', sha] = ((out, err, None), w1)"
  shows "validateCommitSHA git sha (w, tr) = (None, (w1, tr @ [Git [''rev-parse'', ''--verify'', sha]]))"
  using assms by (simp add: validateCommitSHA_def executeGitCommand_def)

lemma TrimSpace_helloJSON: "TrimSpace helloJSON = helloJSON"
  by (rule TrimSpace_id) (simp_all add: helloJSON_def isSpace_def)

lemma length_oversized_nat: "length oversized = 10485761"
  by (simp add: oversized_def)




section \<open>The limit on decoded documents\<close>

text \<open>
  Claim C7. \<open>GetNoteJSON\<close> never returns more than 1000 values, whatever the backend
  and the codec. When the content holds 1000 documents and more content follows, it
  returns these 1000 values with the limit error; when the content holds at most 1000
  documents and nothing more, it returns them all and no error.
\<close>

theorem decode_limit:
  "length (fst (fst (GetNoteJSON c git namespace commitSha st))) \<le> MaxJSONObjects
   \<and> MaxJSONObjects = 1000
   \<and> (GetNote git namespace commitSha st = (Inr noteContent, st1) \<and> commitSha \<noteq> []
        \<and> TrimSpace noteContent \<noteq> [] \<and> decodesFrom c noteContent 0 vs pos \<longrightarrow>
      (length vs = MaxJSONObjects \<and> More c noteContent pos \<longrightarrow>
         GetNoteJSON c git namespace commitSha st = ((vs, Some limitError), st1))
      \<and> (length vs \<le> MaxJSONObjects \<and> \<not> More c noteContent pos \<longrightarrow>
         GetNoteJSON c git namespace commitSha st = ((vs, None), st1)))"
proof -
  have a: "length (fst (fst (GetNoteJSON c git namespace commitSha st))) \<le> MaxJSONObjects"
    by (rule GetNoteJSON_bound)
  have b: "MaxJSONObjects = 1000"
    by (simp add: MaxJSONObjects_def)
  have c: "GetNote git namespace commitSha st = (Inr noteContent, st1) \<and> commitSha \<noteq> []
        \<and> TrimSpace noteContent \<noteq> [] \<and> decodesFrom c noteContent 0 vs pos \<longrightarrow>
      (length vs = MaxJSONObjects \<and> More c noteContent pos \<longrightarrow>
         GetNoteJSON c git namespace commitSha st = ((vs, Some limitError), st1))
      \<and> (length vs \<le> MaxJSONObjects \<and> \<not> More c noteContent pos \<longrightarrow>
         GetNoteJSON c git namespace commitSha st = ((vs, None), st1))"
  proof (intro impI conjI)
    assume h: "GetNote git namespace commitSha st = (Inr noteContent, st1) \<and> commitSha \<noteq> []
        \<and> TrimSpace noteContent \<noteq> [] \<and> decodesFrom c noteContent 0 vs pos"
    assume l: "length vs = MaxJSONObjects \<and> More c noteContent pos"
    have "decodeObjects c commitSha noteContent 0 [] 0 =
          decodeObjects c commitSha noteContent pos vs (length vs)"
      using decodeObjects_stream [of c noteContent 0 vs pos "[]" commitSha] h l by simp
    then have "decodeObjects c commitSha noteContent 0 [] 0 = (vs, Some limitError)"
      using l decodeObjects_limit [of c noteContent pos "length vs" commitSha vs] by simp
    with h show "GetNoteJSON c git namespace commitSha st = ((vs, Some limitError), st1)"
      using GetNoteJSON_decodes [of git namespace commitSha st noteContent st1 c] by simp
  next
    assume h: "GetNote git namespace commitSha st = (Inr noteContent, st1) \<and> commitSha \<noteq> []
        \<and> TrimSpace noteContent \<noteq> [] \<and> decodesFrom c noteContent 0 vs pos"
    assume l: "length vs \<le> MaxJSONObjects \<and> \<not> More c noteContent pos"
    have "decodeObjects c commitSha noteContent 0 [] 0 =
          decodeObjects c commitSha noteContent pos vs (length vs)"
      using decodeObjects_stream [of c noteContent 0 vs pos "[]" commitSha] h l by simp
    then have "decodeObjects c commitSha noteContent 0 [] 0 = (vs, None)"
      using l decodeObjects_stop [of c noteContent pos commitSha vs "length vs"] by simp
    with h show "GetNoteJSON c git namespace commitSha st = ((vs, None), st1)"
      using GetNoteJSON_decodes [of git namespace commitSha st noteContent st1 c] by simp
  qed
  from a b c show ?thesis by blast
qed

text \<open>Runs on 1001 documents and on two.\<close>

theorem decode_limit_witness:
  "GetNoteJSON textCodec scripted ''dd_notes'' ''4b825dc''
     ([(''4b825dc'', [], None), (thousandAndOne, [], None)], []) =
     ((replicate 1000 ''a'', Some limitError),
      ([], [Git [''rev-parse'', ''--verify'', ''4b825dc''],
            Git [''notes'', ''--ref'', ''refs/notes/dd_notes'', ''show'', ''4b825dc'']]))
   \<and> GetNoteJSON textCodec scripted ''dd_notes'' ''4b825dc''
     ([(''4b825dc'', [], None), (doc @ doc, [], None)], []) =
     (([''a'', ''a''], None),
      ([], [Git [''rev-parse'', ''--verify'', ''4b825dc''],
            Git [''notes'', ''--ref'', ''refs/notes/dd_notes'', ''show'', ''4b825dc'']]))"
proof -
  let ?st1 = "([] :: run_result list,
               [Git [''rev-parse'', ''--verify'', ''4b825dc''],
                Git [''notes'', ''--ref'', ''refs/notes/dd_notes'', ''show'', ''4b825dc'']])"
  have g: "GetNote scripted ''dd_notes'' ''4b825dc''
             ([(''4b825dc'', [], None), (thousandAndOne, [], None)], []) =
           (Inr thousandAndOne, ?st1)"
    using GetNote_scripted [OF safe_4b _ TrimSpace_thousandAndOne, of "''dd_notes''" "''4b825dc''"]
    by (simp add: ref_dd_notes)
  have n: "TrimSpace thousandAndOne \<noteq> []"
    unfolding TrimSpace_thousandAndOne by (simp add: thousandAndOne_def doc_def)
  have d: "decodesFrom textCodec thousandAndOne 0 (replicate 1000 ''a'') 3000"
    unfolding thousandAndOne_def by (rule thousand_docs)
  have l: "length (concat (replicate 1000 doc)) = 3000"
    by (simp add: length_docs)
  have m: "More textCodec thousandAndOne 3000"
    unfolding thousandAndOne_def
    using textCodec_doc(1) [of "concat (replicate 1000 doc)" "[]"] by (simp only: l append_Nil2)
  have a: "GetNoteJSON textCodec scripted ''dd_notes'' ''4b825dc''
     ([(''4b825dc'', [], None), (thousandAndOne, [], None)], []) =
     ((replicate 1000 ''a'', Some limitError), ?st1)"
    using decode_limit [of textCodec scripted "''dd_notes''" "''4b825dc''"
        "([(''4b825dc'', [], None), (thousandAndOne, [], None)], [])" thousandAndOne ?st1
        "replicate 1000 ''a''" 3000] g n d m
    by (simp add: MaxJSONObjects_def)
  have t2: "TrimSpace (doc @ doc) = doc @ doc"
    by (rule TrimSpace_id) (simp_all add: doc_def isSpace_def)
  have g2: "GetNote scripted ''dd_notes'' ''4b825dc''
             ([(''4b825dc'', [], None), (doc @ doc, [], None)], []) = (Inr (doc @ doc), ?st1)"
    using GetNote_scripted [OF safe_4b _ t2, of "''dd_notes''" "''4b825dc''"]
    by (simp add: ref_dd_notes)
  have n2: "TrimSpace (doc @ doc) \<noteq> []"
    unfolding t2 by (simp add: doc_def)
  have d2: "decodesFrom textCodec (doc @ doc) 0 [''a'', ''a''] 6"
    by (simp add: textCodec_def doc_def isSpace_def Let_def)
  have m2: "\<not> More textCodec (doc @ doc) 6"
    by (simp add: textCodec_def doc_def)
  have b: "GetNoteJSON textCodec scripted ''dd_notes'' ''4b825dc''
     ([(''4b825dc'', [], None), (doc @ doc, [], None)], []) = (([''a'', ''a''], None), ?st1)"
    using decode_limit [of textCodec scripted "''dd_notes''" "''4b825dc''"
        "([(''4b825dc'', [], None), (doc @ doc, [], None)], [])" "doc @ doc" ?st1
        "[''a'', ''a'']" 6] g2 n2 d2 m2
    by (simp add: MaxJSONObjects_def)
  from a b show ?thesis by blast
qed

section \<open>Encoding and decoding one value\<close>

text \<open>
  Claim C9, as the code has it. Let the commit reference be non-empty and valid, let the
  JSON text of the value be at most 10 MiB long, let the codec decode that text back to
  the value and find nothing after it, and let the backend store the note and return
  its text on the next read. Then \<open>SetNoteJSON\<close> succeeds, writing exactly the JSON text
  as the note, and \<open>GetNoteJSON\<close> returns the one-element sequence of the value, with
  no error.
\<close>

theorem json_round_trip:
  assumes sha: "commitSha \<noteq> []" and safe: "isSafeRevisionSpec commitSha"
    and enc: "Marshal c v = Inr jsonData"
    and sz: "int (length jsonData) \<le> MaxNoteSize"
    and more: "More c jsonData 0"
    and dec: "Decode c jsonData 0 = Inr (v, n)"
    and ended: "\<not> More c jsonData n"
    and verify1: "git w [''rev-parse'', ''--verify'', commitSha] = ((o1, e1, None), w1)"
    and added: "git w1 [''notes'', ''--ref'', formatNamespaceRef namespace, ''add'', ''-f'', ''-m'',
                      jsonData, commitSha] = ((o2, e2, None), w2)"
    and verify2: "git w2 [''rev-parse'', ''--verify'', commitSha] = ((o3, e3, None), w3)"
    and shw: "git w3 [''notes'', ''--ref'', formatNamespaceRef namespace, ''show'', commitSha]
                = ((out, e4, None), w4)"
    and stored: "TrimSpace out = jsonData"
    and nonblank: "TrimSpace jsonData \<noteq> []"
  shows "SetNoteJSON c git namespace commitSha v (w, tr) =
           (None, (w2, tr @ [Git [''rev-parse'', ''--verify'', commitSha],
                             Git [''notes'', ''--ref'', formatNamespaceRef namespace, ''add'', ''-f'',
                                  ''-m'', jsonData, commitSha]]))
    \<and> GetNoteJSON c git namespace commitSha (w2, tr') =
           (([v], None),
            (w4, tr' @ [Git [''rev-parse'', ''--verify'', commitSha],
                        Git [''notes'', ''--ref'', formatNamespaceRef namespace, ''show'',
                             commitSha]]))"
proof -
  have s: "SetNoteJSON c git namespace commitSha v (w, tr) =
           (None, (w2, tr @ [Git [''rev-parse'', ''--verify'', commitSha],
                             Git [''notes'', ''--ref'', formatNamespaceRef namespace, ''add'', ''-f'',
                                  ''-m'', jsonData, commitSha]]))"
    using sha enc sz added
    by (simp add: SetNoteJSON_def SetNote_def validateCommitSHA_ok [where git = git and w = w, OF safe sha verify1]
        executeGitCommand_def Let_def)
  have g: "GetNote git namespace commitSha (w2, tr') =
             (Inr jsonData,
              (w4, tr' @ [Git [''rev-parse'', ''--verify'', commitSha],
                          Git [''notes'', ''--ref'', formatNamespaceRef namespace, ''show'',
                               commitSha]]))"
    using sha shw stored
    by (simp add: GetNote_def GetNoteWithContext_def validateCommitSHA_ok [where git = git and w = w2, OF safe sha verify2]
        Background_exec executeGitCommand_def Let_def)
  have d: "decodesFrom c jsonData 0 [v] n"
    using more dec by simp
  have "decodeObjects c commitSha jsonData 0 [] 0 = decodeObjects c commitSha jsonData n [v] 1"
    using decodeObjects_stream [OF d, of "[]" commitSha] by (simp add: MaxJSONObjects_def)
  also have "\<dots> = ([v], None)"
    using ended by (rule decodeObjects_stop)
  finally have "GetNoteJSON c git namespace commitSha (w2, tr') =
           (([v], None),
            (w4, tr' @ [Git [''rev-parse'', ''--verify'', commitSha],
                        Git [''notes'', ''--ref'', formatNamespaceRef namespace, ''show'',
                             commitSha]]))"
    using GetNoteJSON_decodes [OF g sha nonblank, of c] by simp
  with s show ?thesis by blast
qed

text \<open>A run with the text \<open>hello\<close>.\<close>

theorem json_round_trip_witness:
  "SetNoteJSON textCodec scripted ''dd_notes'' ''4b825dc'' ''hello'' (roundTripRun, []) =
     (None, (drop 2 roundTripRun,
             [Git [''rev-parse'', ''--verify'', ''4b825dc''],
              Git [''notes'', ''--ref'', ''refs/notes/dd_notes'', ''add'', ''-f'', ''-m'', helloJSON,
                   ''4b825dc'']]))
   \<and> GetNoteJSON textCodec scripted ''dd_notes'' ''4b825dc'' (drop 2 roundTripRun, []) =
     (([''hello''], None),
      ([], [Git [''rev-parse'', ''--verify'', ''4b825dc''],
            Git [''notes'', ''--ref'', ''refs/notes/dd_notes'', ''show'', ''4b825dc'']]))"
proof -
  have s: "''4b825dc'' \<noteq> []" by simp
  have e: "Marshal textCodec ''hello'' = Inr helloJSON"
    by (simp add: textCodec_def helloJSON_def)
  have z: "int (length helloJSON) \<le> MaxNoteSize"
    by (simp add: helloJSON_def MaxNoteSize_def)
  have m: "More textCodec helloJSON 0"
    by (simp add: textCodec_def helloJSON_def isSpace_def)
  have d: "Decode textCodec helloJSON 0 = Inr (''hello'', 7)"
    by (simp add: textCodec_def helloJSON_def isSpace_def Let_def)
  have f: "\<not> More textCodec helloJSON 7"
    by (simp add: textCodec_def helloJSON_def)
  have v1: "scripted roundTripRun [''rev-parse'', ''--verify'', ''4b825dc'']
              = ((''4b825dc'', [], None), tl roundTripRun)"
    by (simp add: scripted_def roundTripRun_def)
  have a: "scripted (tl roundTripRun)
             [''notes'', ''--ref'', formatNamespaceRef ''dd_notes'', ''add'', ''-f'', ''-m'', helloJSON,
              ''4b825dc''] = (([], [], None), drop 2 roundTripRun)"
    by (simp add: scripted_def roundTripRun_def)
  have v2: "scripted (drop 2 roundTripRun) [''rev-parse'', ''--verify'', ''4b825dc'']
              = ((''4b825dc'', [], None), drop 3 roundTripRun)"
    by (simp add: scripted_def roundTripRun_def)
  have sh: "scripted (drop 3 roundTripRun)
              [''notes'', ''--ref'', formatNamespaceRef ''dd_notes'', ''show'', ''4b825dc'']
              = ((helloJSON, [], None), [])"
    by (simp add: scripted_def roundTripRun_def)
  have n: "TrimSpace helloJSON \<noteq> []"
    unfolding TrimSpace_helloJSON by (simp add: helloJSON_def)
  from json_round_trip [where git = scripted and c = textCodec and tr = "[]" and tr' = "[]",
      OF s safe_4b e z m d f v1 a v2 sh TrimSpace_helloJSON n]
  show ?thesis by (simp add: ref_dd_notes)
qed

text \<open>
  The claim as the specification words it fails for the empty commit reference, which
  \<open>SetNoteJSON\<close> rejects, and for a value whose JSON text is longer than 10 MiB, which
  \<open>SetNote\<close> rejects: nothing is stored to read back.
\<close>

theorem json_round_trip_counterexample:
  "SetNoteJSON textCodec scripted ''dd_notes'' [] ''hello'' (roundTripRun, []) =
     (Some (ErrorString ''commitSha cannot be empty for SetNoteJSON''), (roundTripRun, []))
   \<and> SetNoteJSON textCodec scripted ''dd_notes'' ''4b825dc'' oversized (roundTripRun, []) =
     (Some (NoteSizeExceededError 10485763 10485760),
      (tl roundTripRun, [Git [''rev-parse'', ''--verify'', ''4b825dc'']]))"
proof -
  have a: "SetNoteJSON textCodec scripted ''dd_notes'' [] ''hello'' (roundTripRun, []) =
     (Some (ErrorString ''commitSha cannot be empty for SetNoteJSON''), (roundTripRun, []))"
    by (simp add: SetNoteJSON_def)
  have v: "validateCommitSHA scripted ''4b825dc'' (roundTripRun, []) =
             (None, (tl roundTripRun, [Git [''rev-parse'', ''--verify'', ''4b825dc'']]))"
    using validateCommitSHA_ok [where git = scripted and w = roundTripRun and tr = "[]", OF safe_4b]
    by (simp add: scripted_def roundTripRun_def)
  have b: "SetNoteJSON textCodec scripted ''dd_notes'' ''4b825dc'' oversized (roundTripRun, []) =
     (Some (NoteSizeExceededError 10485763 10485760),
      (tl roundTripRun, [Git [''rev-parse'', ''--verify'', ''4b825dc'']]))"
    by (simp add: SetNoteJSON_def SetNote_def textCodec_def v length_oversized_nat MaxNoteSize_def)
  from a b show ?thesis by blast
qed

section \<open>The list of notes, newest first\<close>













end
